theory Spec2Isabelle
  imports Complex_Main
begin

section \<open>JavaScript values used by the gateway\<close>

text \<open>
  The gateway is TypeScript on Node. Its strings are modelled as \<open>string\<close>, read as the
  UTF-8 bytes of the text. An optional field (\<open>x?: T\<close>) is a \<open>T option\<close>, \<open>None\<close> standing
  for \<open>undefined\<close> and for \<open>null\<close>, which the code treats alike wherever it reads such a
  field. Lines written to the diagnostic stream by \<open>log\<close> are not part of the model,
  except where computing the line can throw.
\<close>

subsection \<open>Numbers\<close>

text \<open>
  A JavaScript number is a double. It is modelled by its exact value: a rational, or one of
  the three values that are not finite. Every double is such a value, so what is proved for
  every \<open>number\<close> holds for every double; the fields \<open>timeout\<close>, \<open>maxRetries\<close> and
  \<open>maxTurns\<close> are numbers of this kind, which nothing in the gateway validates.
\<close>

datatype number = Num rat | Infinity | NegInfinity | NaN

text \<open>\<open>a <= b\<close> and \<open>a < b\<close> on numbers: exact on finite values, false when either is \<open>NaN\<close>.\<close>

fun number_le :: "number \<Rightarrow> number \<Rightarrow> bool" where
  "number_le NaN b = False"
| "number_le a NaN = False"
| "number_le NegInfinity b = True"
| "number_le a Infinity = True"
| "number_le (Num x) (Num y) = (x \<le> y)"
| "number_le Infinity b = False"
| "number_le a NegInfinity = False"

fun number_less :: "number \<Rightarrow> number \<Rightarrow> bool" where
  "number_less NaN b = False"
| "number_less a NaN = False"
| "number_less (Num x) (Num y) = (x < y)"
| "number_less Infinity b = False"
| "number_less a NegInfinity = False"
| "number_less NegInfinity b = True"
| "number_less a Infinity = True"

text \<open>
  A loop counter (\<open>let attempt = 1; ...; attempt++\<close>) holds an integer. The increment is
  exact up to \<open>2^53\<close>; there \<open>attempt + 1\<close> is not a double and rounds back to \<open>2^53\<close>, so
  the counter stays where it is.
\<close>

definition increment :: "int \<Rightarrow> int" where
  "increment a = (if a < 2 ^ 53 then a + 1 else a)"

subsection \<open>Strings and sets\<close>

text \<open>A string in a condition: the empty string is falsy, as is \<open>undefined\<close>.\<close>

fun truthy_string :: "string option \<Rightarrow> bool" where
  "truthy_string None = False"
| "truthy_string (Some s) = (s \<noteq> [])"

text \<open>\<open>a || b\<close> on an optional string and a string.\<close>

fun or_default :: "string option \<Rightarrow> string \<Rightarrow> string" where
  "or_default None d = d"
| "or_default (Some s) d = (if s = [] then d else s)"

text \<open>
  \<open>text.indexOf(c)\<close> and \<open>text.lastIndexOf(c)\<close> for a one-character pattern: the index of
  the first (last) occurrence, \<open>-1\<close> when there is none.
\<close>

fun indexOf :: "string \<Rightarrow> char \<Rightarrow> int" where
  "indexOf [] c = - 1"
| "indexOf (x # xs) c =
     (if x = c then 0 else (let i = indexOf xs c in if i = - 1 then - 1 else i + 1))"

fun lastIndexOf :: "string \<Rightarrow> char \<Rightarrow> int" where
  "lastIndexOf [] c = - 1"
| "lastIndexOf (x # xs) c =
     (let i = lastIndexOf xs c in
      if i \<noteq> - 1 then i + 1 else if x = c then 0 else - 1)"

text \<open>
  \<open>text.substring(a, b)\<close>: both indices are clamped to \<open>0 .. length\<close> and swapped
  when the first is the larger.
\<close>

definition clamp_index :: "string \<Rightarrow> int \<Rightarrow> nat" where
  "clamp_index s i = (if i < 0 then 0 else min (nat i) (length s))"

definition substring :: "string \<Rightarrow> int \<Rightarrow> int \<Rightarrow> string" where
  "substring s a b =
     (let i = clamp_index s a; j = clamp_index s b;
          lo = min i j; hi = max i j
      in take (hi - lo) (drop lo s))"

text \<open>
  \<open>new Set(xs)\<close> iterated: the elements in the order of their first insertion, each once.
\<close>

definition Set_add :: "'a list \<Rightarrow> 'a \<Rightarrow> 'a list" where
  "Set_add s x = (if x \<in> set s then s else s @ [x])"

definition new_Set :: "'a list \<Rightarrow> 'a list" where
  "new_Set xs = foldl Set_add [] xs"

subsection \<open>JSON values and the runtime\<close>

text \<open>
  A parsed JSON value. A number is kept as its literal; in an object, a later member
  overrides an earlier one of the same name.
\<close>

datatype json =
  JNull
| JBool bool
| JNumber string
| JString string
| JArray "json list"
| JObject "(string \<times> json) list"

text \<open>
  What the code leaves to the runtime is a parameter of the model, so that every statement
  about the code holds whatever Node computes there:
  \<^item> \<open>parseJSON\<close> is \<open>JSON.parse\<close>, \<open>None\<close> when it throws;
  \<^item> \<open>numberToString\<close> is the conversion of a number to a string (\<open>String(n)\<close>, a number in
    a template literal, a finite number in \<open>JSON.stringify\<close>);
  \<^item> \<open>multiply\<close> is the floating-point product;
  \<^item> \<open>utf8ToString\<close> is \<open>buffer.toString('utf-8')\<close>, which decodes the bytes of a buffer and
    replaces what is not UTF-8.
\<close>

record runtime =
  parseJSON :: "string \<Rightarrow> json option"
  numberToString :: "number \<Rightarrow> string"
  multiply :: "number \<Rightarrow> number \<Rightarrow> number"
  utf8ToString :: "string \<Rightarrow> string"

section \<open>Types (types.ts)\<close>

record ClaudeExecutionResult =
  success :: bool
  "output" :: string
  exitCode :: int

text \<open>
  The arguments of a tool call are the JSON the client sent, used without a check. The
  member \<open>prompt\<close> is read by a log line before anything else looks at the call, so it
  is kept as the value sent (\<open>None\<close> when it is missing); the other members are taken at
  their declared types.
\<close>

record ClaudeToolArguments =
  prompt :: "json option"
  model :: "string option"
  timeout :: "number option"
  maxRetries :: "number option"
  maxTurns :: "number option"
  outputFormat :: "string option"
  jsonSchema :: "string option"
  systemPrompt :: "string option"
  appendSystemPrompt :: "string option"
  allowedTools :: "string list option"
  disallowedTools :: "string list option"
  addDirs :: "string list option"
  verbose :: "bool option"
  enableMcp :: "bool option"
  mcpConfigPath :: "string option"

record ClaudeCliOptions =
  model :: string
  timeout :: number
  maxRetries :: number
  maxTurns :: "number option"
  outputFormat :: string
  jsonSchema :: "string option"
  systemPrompt :: "string option"
  appendSystemPrompt :: "string option"
  allowedTools :: "string list option"
  disallowedTools :: "string list option"
  addDirs :: "string list option"
  verbose :: bool
  enableMcp :: "bool option"
  mcpConfigPath :: "string option"

section \<open>Model names and command-line arguments (claude-cli.ts)\<close>

text \<open>
  \<open>MODEL_MAP\<close> is an object literal, so reading \<open>MODEL_MAP[model]\<close> finds the seven own
  properties and, for any other key, the members every object inherits from
  \<open>Object.prototype\<close>; only a key found in neither reads as \<open>undefined\<close>. An inherited
  member is a function or an object, never a string, and is truthy.
\<close>

datatype js_value = Undefined | Str string | PrototypeMember string

fun truthy :: "js_value \<Rightarrow> bool" where
  "truthy Undefined = False"
| "truthy (Str s) = (s \<noteq> [])"
| "truthy (PrototypeMember k) = True"

definition MODEL_MAP :: "(string \<times> string) list" where
  "MODEL_MAP =
     [(''haiku'', ''claude-haiku-4-5-20251001''),
      (''Haiku'', ''claude-haiku-4-5-20251001''),
      (''sonnet'', ''claude-sonnet-4-5-20250929''),
      (''Sonnet'', ''claude-sonnet-4-5-20250929''),
      (''opus'', ''claude-opus-4-5-20251101''),
      (''Opus'', ''claude-opus-4-5-20251101''),
      (''Opus 4.5'', ''claude-opus-4-5-20251101'')]"

definition Object_prototype_keys :: "string list" where
  "Object_prototype_keys =
     [''constructor'', ''__defineGetter__'', ''__defineSetter__'', ''hasOwnProperty'',
      ''__lookupGetter__'', ''__lookupSetter__'', ''isPrototypeOf'',
      ''propertyIsEnumerable'', ''toString'', ''valueOf'', ''__proto__'',
      ''toLocaleString'']"

definition MODEL_MAP_get :: "string \<Rightarrow> js_value" where
  "MODEL_MAP_get key =
     (case map_of MODEL_MAP key of
        Some v \<Rightarrow> Str v
      | None \<Rightarrow> if key \<in> set Object_prototype_keys then PrototypeMember key else Undefined)"

definition mapModelName :: "string \<Rightarrow> js_value" where
  "mapModelName m =
     (let mapped = MODEL_MAP_get m
      in if \<not> truthy mapped then MODEL_MAP_get ''haiku'' else mapped)"

definition DEFAULT_DISALLOWED_TOOLS :: "string list" where
  "DEFAULT_DISALLOWED_TOOLS =
     [''Bash(npm run build:*)'',
      ''Bash(npm run dev:*)'',
      ''Bash(npm test:*)'',
      ''Bash(npm run test:run:*)'',
      ''Bash(npm run lint:*)'',
      ''Bash(npx tsc -b:*)'',
      ''Bash(npx eslint .:*)'']"

text \<open>One \<open>args.push(flag, v)\<close> for every element of an optional array.\<close>

definition flag_each :: "string \<Rightarrow> string list \<Rightarrow> js_value list" where
  "flag_each flag vs = concat (map (\<lambda>v. [Str flag, Str v]) vs)"

definition array_or_empty :: "'a list option \<Rightarrow> 'a list" where
  "array_or_empty xs = (case xs of None \<Rightarrow> [] | Some ys \<Rightarrow> ys)"

definition buildClaudeArgs :: "runtime \<Rightarrow> ClaudeCliOptions \<Rightarrow> js_value list" where
  "buildClaudeArgs rt options =
     [Str ''--model'', mapModelName (model options),
      Str ''--dangerously-skip-permissions'', Str ''-p'']
     @ [Str ''--output-format'', Str (or_default (Some (outputFormat options)) ''json'')]
     @ (case maxTurns options of
          None \<Rightarrow> []
        | Some n \<Rightarrow> [Str ''--max-turns'', Str (numberToString rt n)])
     @ (if truthy_string (jsonSchema options)
        then [Str ''--json-schema'', Str (the (jsonSchema options))] else [])
     @ (if truthy_string (systemPrompt options)
        then [Str ''--system-prompt'', Str (the (systemPrompt options))] else [])
     @ (if truthy_string (appendSystemPrompt options)
        then [Str ''--append-system-prompt'', Str (the (appendSystemPrompt options))] else [])
     @ flag_each ''--allowedTools'' (array_or_empty (allowedTools options))
     @ flag_each ''--disallowedTools''
         (new_Set (DEFAULT_DISALLOWED_TOOLS @ array_or_empty (disallowedTools options)))
     @ flag_each ''--add-dir'' (array_or_empty (addDirs options))
     @ (if verbose options then [Str ''--verbose''] else [])"

section \<open>The subprocess runner (claude-cli.ts, executeClaudeCli)\<close>

text \<open>
  A call either returns a value, throws, or never returns; for an \<open>async\<close> function these
  are the promise resolved, rejected, and pending for ever. The fourth way to end is that
  of the whole server: an exception that nothing catches ends the Node process, and with
  it every call in progress (\<open>Died\<close>).
\<close>

datatype 'a completion = Resolved 'a | Rejected string | Pending | Died

text \<open>
  What Node delivers while a child process runs, in the order of delivery: output chunks
  (the bytes of a \<open>Buffer\<close>), the expiry of the timeout timer, the \<open>close\<close> event with the
  exit code (\<open>null\<close> for a process ended by a signal), the \<open>error\<close> event of the child, and
  the \<open>error\<close> event of the stream \<open>proc.stdin\<close>, to which the prompt is written
  (\<open>proc.stdin.write(prompt); proc.stdin.end()\<close>): a write fails, for instance with
  \<open>EPIPE\<close>, when the child has gone before it has read the prompt. The environment chooses
  the events; \<open>spawn\<close> itself may throw.

  \<open>executeClaudeCli\<close> installs handlers for the first four kinds of event. For the \<open>error\<close>
  event of \<open>proc.stdin\<close> it installs none, and Node throws an \<open>error\<close> event that has no
  listener as an uncaught exception.
\<close>

datatype proc_event =
  StdoutData string
| StderrData string
| TimerFired
| Close "int option"
| ProcError string
| StdinError string

datatype process = SpawnThrows string | Events "proc_event list"

record runner_state =
  chunks :: "string list"
  errorChunks :: "string list"
  killed :: bool
  timerArmed :: bool
  resolved :: "ClaudeExecutionResult option"
  died :: bool

definition runner_init :: runner_state where
  "runner_init =
     \<lparr>chunks = [], errorChunks = [], killed = False, timerArmed = True, resolved = None,
      died = False\<rparr>"

text \<open>\<open>resolve(r)\<close>: a promise keeps the first value it is resolved with.\<close>

definition resolve :: "ClaudeExecutionResult \<Rightarrow> runner_state \<Rightarrow> runner_state" where
  "resolve r st = (if resolved st = None then st\<lparr>resolved := Some r\<rparr> else st)"

definition on_close :: "runtime \<Rightarrow> int option \<Rightarrow> runner_state \<Rightarrow> runner_state" where
  "on_close rt code st =
     (let st1 = st\<lparr>timerArmed := False\<rparr>;
          out = utf8ToString rt (concat (chunks st));
          errorOutput = utf8ToString rt (concat (errorChunks st))
      in if killed st then
           resolve \<lparr>success = False, output = ''Command timeout'', exitCode = 124\<rparr> st1
         else if code = Some 0 then
           resolve \<lparr>success = True, output = out, exitCode = 0\<rparr> st1
         else
           resolve
             \<lparr>success = False,
              output =
                (if errorOutput \<noteq> [] then errorOutput
                 else if out \<noteq> [] then out
                 else ''Exit code: '' @ (case code of
                                            None \<Rightarrow> ''null''
                                          | Some n \<Rightarrow> numberToString rt (Num (of_int n)))),
              exitCode = (case code of None \<Rightarrow> 1 | Some n \<Rightarrow> n)\<rparr> st1)"

definition on_error :: "string \<Rightarrow> runner_state \<Rightarrow> runner_state" where
  "on_error msg st =
     resolve \<lparr>success = False, output = ''Spawn error: '' @ msg, exitCode = 1\<rparr>
       (st\<lparr>timerArmed := False\<rparr>)"

fun handle_event :: "runtime \<Rightarrow> runner_state \<Rightarrow> proc_event \<Rightarrow> runner_state" where
  "handle_event rt st (StdoutData chunk) = st\<lparr>chunks := chunks st @ [chunk]\<rparr>"
| "handle_event rt st (StderrData chunk) = st\<lparr>errorChunks := errorChunks st @ [chunk]\<rparr>"
| "handle_event rt st TimerFired =
     (if timerArmed st then st\<lparr>killed := True, timerArmed := False\<rparr> else st)"
| "handle_event rt st (Close code) = on_close rt code st"
| "handle_event rt st (ProcError msg) = on_error msg st"
| "handle_event rt st (StdinError msg) = st\<lparr>died := True\<rparr>"

text \<open>
  The outcome of one child process: a throw of \<open>spawn\<close> inside the promise executor rejects
  the promise; an error on the standard input ends the server; otherwise the promise holds
  what the handlers resolved it with, if anything.
\<close>

definition process_outcome :: "runtime \<Rightarrow> process \<Rightarrow> ClaudeExecutionResult completion" where
  "process_outcome rt p =
     (case p of
        SpawnThrows msg \<Rightarrow> Rejected msg
      | Events evs \<Rightarrow>
          (let st = foldl (handle_event rt) runner_init evs
           in if died st then Died
              else (case resolved st of
                      None \<Rightarrow> Pending
                    | Some r \<Rightarrow> Resolved r)))"

section \<open>Effects\<close>

datatype rpc_id = IdNumber int | IdString string | IdNull

record JsonRpcError =
  code :: int
  message :: string
  data :: "string option"

datatype McpToolResult = TextContent string

datatype JsonRpcResponse =
  ResultResponse rpc_id McpToolResult
| ErrorResponse rpc_id JsonRpcError

text \<open>
  The effects of the modelled code on its environment, in order: a call of \<open>spawn\<close> (with
  the prompt written to the standard input of the child, its arguments and the
  milliseconds of its timer), a \<open>sleep\<close>, a response handed to \<open>atomicOutput\<close>. How the
  \<open>n\<close>-th process spawned behaves is for the environment to say, and it may depend on what
  the process was given: \<open>env n prompt args timeoutMs\<close>.
\<close>

datatype effect =
  Spawn string "js_value list" number
| Sleep int
| Respond JsonRpcResponse

record world =
  spawned :: nat
  trace :: "effect list"

type_synonym environment = "nat \<Rightarrow> string \<Rightarrow> js_value list \<Rightarrow> number \<Rightarrow> process"

definition executeClaudeCli ::
  "runtime \<Rightarrow> environment \<Rightarrow> string \<Rightarrow> js_value list \<Rightarrow> number \<Rightarrow> world
     \<Rightarrow> ClaudeExecutionResult completion \<times> world" where
  "executeClaudeCli rt env promptText args timeoutMs w =
     (process_outcome rt (env (spawned w) promptText args timeoutMs),
      w\<lparr>spawned := Suc (spawned w), trace := trace w @ [Spawn promptText args timeoutMs]\<rparr>)"

definition sleep :: "int \<Rightarrow> world \<Rightarrow> world" where
  "sleep ms w = w\<lparr>trace := trace w @ [Sleep ms]\<rparr>"

section \<open>Plain retry (claude-cli.ts, runWithRetry)\<close>

text \<open>
  The loop \<open>for (let attempt = 1; attempt <= options.maxRetries; attempt++)\<close>. Nothing
  bounds it when \<open>maxRetries\<close> is \<open>Infinity\<close> or lies beyond the reach of the counter, so
  the result is optional: \<open>None\<close> is a loop that never ends.
\<close>

partial_function (option) runWithRetry_loop ::
  "runtime \<Rightarrow> environment \<Rightarrow> string \<Rightarrow> js_value list \<Rightarrow> number \<Rightarrow> number \<Rightarrow> int \<Rightarrow> world
     \<Rightarrow> (ClaudeExecutionResult completion \<times> world) option" where
  "runWithRetry_loop rt env promptText args timeoutMs retries attempt w =
     (if number_le (Num (of_int attempt)) retries then
        (case executeClaudeCli rt env promptText args timeoutMs w of
           (Resolved result, w1) \<Rightarrow>
             if success result then Some (Resolved result, w1)
             else if exitCode result = 124 \<or> exitCode result = 137 then
               (if number_less (Num (of_int attempt)) retries
                then runWithRetry_loop rt env promptText args timeoutMs retries
                       (increment attempt) (sleep 5000 w1)
                else runWithRetry_loop rt env promptText args timeoutMs retries
                       (increment attempt) w1)
             else
               (if number_less (Num (of_int attempt)) retries
                then runWithRetry_loop rt env promptText args timeoutMs retries
                       (increment attempt) (sleep 2000 w1)
                else Some (Resolved result, w1))
         | (Rejected msg, w1) \<Rightarrow> Some (Rejected msg, w1)
         | (Pending, w1) \<Rightarrow> Some (Pending, w1)
         | (Died, w1) \<Rightarrow> Some (Died, w1))
      else
        Some (Resolved
           \<lparr>success = False,
            output = ''Max retries reached after '' @ numberToString rt retries @ '' attempts'',
            exitCode = 1\<rparr>,
         w))"

declare runWithRetry_loop.simps [code]

definition runWithRetry ::
  "runtime \<Rightarrow> environment \<Rightarrow> string \<Rightarrow> ClaudeCliOptions \<Rightarrow> world
     \<Rightarrow> (ClaudeExecutionResult completion \<times> world) option" where
  "runWithRetry rt env promptText options w =
     (let args = buildClaudeArgs rt options;
          timeoutMs = multiply rt (timeout options) (Num 1000)
      in runWithRetry_loop rt env promptText args timeoutMs (maxRetries options) 1 w)"

text \<open>
  The outcome of the \<open>j\<close>-th attempt (\<open>j = 1, 2, ...\<close>) of a call of \<open>runWithRetry\<close> that
  starts in the world \<open>w\<close>.
\<close>

definition attempt_outcome ::
  "runtime \<Rightarrow> environment \<Rightarrow> string \<Rightarrow> ClaudeCliOptions \<Rightarrow> world \<Rightarrow> int
     \<Rightarrow> ClaudeExecutionResult completion" where
  "attempt_outcome rt env promptText options w j =
     process_outcome rt
       (env (spawned w + nat (j - 1)) promptText (buildClaudeArgs rt options)
          (multiply rt (timeout options) (Num 1000)))"

section \<open>Result extraction (claude-cli.ts)\<close>

text \<open>
  The two extraction functions call \<open>JSON.parse\<close> and nothing else of the runtime, so they
  take it as the parameter \<open>parse\<close>: \<open>None\<close> when it throws, the parsed value otherwise.
\<close>

datatype js_error = TypeError | SyntaxError

text \<open>
  \<open>parsed.result\<close>: reading a property of \<open>null\<close> throws; of an object it gives the member
  or \<open>undefined\<close> (\<open>None\<close>); of any other value \<open>undefined\<close>.
\<close>

fun get_property :: "json \<Rightarrow> string \<Rightarrow> js_error + json option" where
  "get_property JNull k = Inl TypeError"
| "get_property (JObject members) k = Inr (map_of (rev members) k)"
| "get_property v k = Inr None"

text \<open>
  \<open>v && typeof v === 'string'\<close>: a string passes when it is not empty; a value of another
  type fails the second conjunct whenever it passes the first.
\<close>

fun truthy_and_string :: "json option \<Rightarrow> bool" where
  "truthy_and_string (Some (JString s)) = (s \<noteq> [])"
| "truthy_and_string v = False"

fun string_of :: "json option \<Rightarrow> string" where
  "string_of (Some (JString s)) = s"
| "string_of v = []"

definition extractResultText :: "(string \<Rightarrow> json option) \<Rightarrow> string \<Rightarrow> string" where
  "extractResultText parse jsonOutput =
     (case (case parse jsonOutput of
              None \<Rightarrow> Inl SyntaxError
            | Some parsed \<Rightarrow>
                (case get_property parsed ''result'' of
                   Inl e \<Rightarrow> Inl e
                 | Inr res \<Rightarrow> if truthy_and_string res then Inr (Some (string_of res)) else Inr None))
      of Inr (Some r) \<Rightarrow> r
       | Inr None \<Rightarrow> jsonOutput
       | Inl e \<Rightarrow> jsonOutput)"

definition extractJsonContent :: "(string \<Rightarrow> json option) \<Rightarrow> string \<Rightarrow> string option" where
  "extractJsonContent parse txt =
     (let firstBrace = indexOf txt (CHR ''{'');
          lastBrace = lastIndexOf txt (CHR ''}'')
      in if firstBrace = - 1 \<or> lastBrace = - 1 \<or> firstBrace \<ge> lastBrace then None
         else
           (let jsonCandidate = substring txt firstBrace (lastBrace + 1)
            in case parse jsonCandidate of
                 None \<Rightarrow> None
               | Some v \<Rightarrow> Some jsonCandidate))"

section \<open>JSON-validating retry (claude-cli.ts, runJsonWithRetry)\<close>

text \<open>\<open>errors.join(sep)\<close>.\<close>

fun join :: "string list \<Rightarrow> string \<Rightarrow> string" where
  "join [] sep = []"
| "join [x] sep = x"
| "join (x # y # ys) sep = x @ sep @ join (y # ys) sep"

text \<open>
  \<open>JSON.stringify\<close> of a string: quotes and backslashes are escaped, control characters
  are written as their short escapes or as \<open>\u00XX\<close>.
\<close>

definition hex_digit :: "nat \<Rightarrow> char" where
  "hex_digit n = ''0123456789abcdef'' ! (n mod 16)"

definition stringify_char :: "char \<Rightarrow> string" where
  "stringify_char c =
     (if c = CHR 0x22 then [CHR 0x5C, CHR 0x22]
      else if c = CHR 0x5C then [CHR 0x5C, CHR 0x5C]
      else if c = CHR 0x08 then [CHR 0x5C, CHR ''b'']
      else if c = CHR 0x0C then [CHR 0x5C, CHR ''f'']
      else if c = CHR 0x0A then [CHR 0x5C, CHR ''n'']
      else if c = CHR 0x0D then [CHR 0x5C, CHR ''r'']
      else if c = CHR 0x09 then [CHR 0x5C, CHR ''t'']
      else if (of_char c :: nat) < 32 then
        [CHR 0x5C, CHR ''u'', CHR ''0'', CHR ''0'',
         hex_digit (of_char c div 16), hex_digit (of_char c)]
      else [c])"

definition stringify_string :: "string \<Rightarrow> string" where
  "stringify_string s = [CHR 0x22] @ concat (map stringify_char s) @ [CHR 0x22]"

text \<open>\<open>JSON.stringify\<close> of a number: a number that is not finite is written \<open>null\<close>.\<close>

definition stringify_number :: "runtime \<Rightarrow> number \<Rightarrow> string" where
  "stringify_number rt n = (case n of Num q \<Rightarrow> numberToString rt n | _ \<Rightarrow> ''null'')"

text \<open>
  \<open>JSON.stringify({error: 'Max retries reached', attempts: n, errors: errors.join('\n')})\<close>.
\<close>

definition stringify_report :: "runtime \<Rightarrow> number \<Rightarrow> string list \<Rightarrow> string" where
  "stringify_report rt n errors =
     ''{'' @ stringify_string ''error'' @ '':'' @ stringify_string ''Max retries reached''
     @ '','' @ stringify_string ''attempts'' @ '':'' @ stringify_number rt n
     @ '','' @ stringify_string ''errors'' @ '':'' @ stringify_string (join errors [CHR 0x0A])
     @ ''}''"

text \<open>
  The loop \<open>for (let attempt = 1; attempt <= options.maxRetries; attempt++)\<close> around an
  inner call of \<open>runWithRetry\<close> that makes one attempt. \<open>None\<close> is a loop that never ends.
\<close>

partial_function (option) runJsonWithRetry_loop ::
  "runtime \<Rightarrow> environment \<Rightarrow> string \<Rightarrow> ClaudeCliOptions \<Rightarrow> string list \<Rightarrow> int \<Rightarrow> world
     \<Rightarrow> (ClaudeExecutionResult completion \<times> world) option" where
  "runJsonWithRetry_loop rt env promptText options errors attempt w =
     (if number_le (Num (of_int attempt)) (maxRetries options) then
        (let jsonOptions = options\<lparr>outputFormat := ''json'', maxRetries := Num 1\<rparr>
         in case runWithRetry rt env promptText jsonOptions w of
              None \<Rightarrow> None
            | Some (Resolved result, w1) \<Rightarrow>
                if \<not> success result then
                  (let errorMsg = ''AI execution failed: '' @ output result
                   in runJsonWithRetry_loop rt env promptText options
                        (errors @ [''['' @ numberToString rt (Num (of_int attempt)) @ ''] ''
                                   @ errorMsg])
                        (increment attempt) w1)
                else
                  (let resultText = extractResultText (parseJSON rt) (output result);
                       jsonContent0 = extractJsonContent (parseJSON rt) resultText;
                       jsonContent =
                         (if \<not> truthy_string jsonContent0
                          then extractJsonContent (parseJSON rt) (output result)
                          else jsonContent0)
                   in if truthy_string jsonContent then
                        Some (Resolved \<lparr>success = True, output = the jsonContent, exitCode = 0\<rparr>,
                              w1)
                      else
                        (let errorMsg = ''JSON parsing failed'';
                             errors1 =
                               errors @ [''['' @ numberToString rt (Num (of_int attempt))
                                         @ ''] '' @ errorMsg];
                             w2 = (if number_less (Num (of_int attempt)) (maxRetries options)
                                   then sleep 2000 w1 else w1)
                         in runJsonWithRetry_loop rt env promptText options errors1
                              (increment attempt) w2))
            | Some (Rejected msg, w1) \<Rightarrow> Some (Rejected msg, w1)
            | Some (Pending, w1) \<Rightarrow> Some (Pending, w1)
            | Some (Died, w1) \<Rightarrow> Some (Died, w1))
      else
        Some (Resolved
           \<lparr>success = False,
            output = stringify_report rt (maxRetries options) errors,
            exitCode = 1\<rparr>,
         w))"

declare runJsonWithRetry_loop.simps [code]

definition runJsonWithRetry ::
  "runtime \<Rightarrow> environment \<Rightarrow> string \<Rightarrow> ClaudeCliOptions \<Rightarrow> world
     \<Rightarrow> (ClaudeExecutionResult completion \<times> world) option" where
  "runJsonWithRetry rt env promptText options w =
     runJsonWithRetry_loop rt env promptText options [] 1 w"

section \<open>The dispatcher (tools.ts, server.ts)\<close>

text \<open>The tool catalogue; the input schemas, which no modelled code reads, are left out.\<close>

record McpToolDefinition =
  name :: string
  description :: string

definition TOOLS :: "McpToolDefinition list" where
  "TOOLS =
     [\<lparr>name = ''claude_generate'',
       description = ''Generate code or text via Claude Code CLI with retry and model selection''\<rparr>,
      \<lparr>name = ''claude_edit'',
       description = ''Edit files via Claude Code CLI with retry and model selection''\<rparr>,
      \<lparr>name = ''claude_refactor'',
       description = ''Refactor code via Claude Code CLI with retry and model selection''\<rparr>,
      \<lparr>name = ''claude_generate_json'',
       description = ''Generate JSON response with validation and retry''\<rparr>,
      \<lparr>name = ''claude_edit_json'',
       description = ''Edit with JSON response validation and retry''\<rparr>]"

definition VALID_TOOL_NAMES :: "string set" where
  "VALID_TOOL_NAMES = set (map McpToolDefinition.name TOOLS)"

text \<open>
  The \<open>params\<close> of a \<open>tools/call\<close> request are whatever JSON the client sent:
  \<open>processRequest\<close> casts them to \<open>McpToolCallParams\<close> without a check. So the member
  \<open>arguments\<close> may be missing, and so may \<open>params\<close> itself.
\<close>

record McpToolCallParams =
  name :: string
  arguments :: "ClaudeToolArguments option"

definition atomicOutput :: "JsonRpcResponse \<Rightarrow> world \<Rightarrow> world" where
  "atomicOutput response w = w\<lparr>trace := trace w @ [Respond response]\<rparr>"

definition sendError :: "rpc_id \<Rightarrow> int \<Rightarrow> string \<Rightarrow> string option \<Rightarrow> world \<Rightarrow> world" where
  "sendError i c msg d w =
     atomicOutput (ErrorResponse i \<lparr>code = c, message = msg, data = d\<rparr>) w"

definition sendResult :: "rpc_id \<Rightarrow> McpToolResult \<Rightarrow> world \<Rightarrow> world" where
  "sendResult i r w = atomicOutput (ResultResponse i r) w"

definition parseToolArguments :: "ClaudeToolArguments \<Rightarrow> ClaudeCliOptions" where
  "parseToolArguments args =
     \<lparr>model = or_default (ClaudeToolArguments.model args) ''haiku'',
      timeout = (case ClaudeToolArguments.timeout args of None \<Rightarrow> Num 660 | Some t \<Rightarrow> t),
      maxRetries = (case ClaudeToolArguments.maxRetries args of None \<Rightarrow> Num 3 | Some n \<Rightarrow> n),
      maxTurns = ClaudeToolArguments.maxTurns args,
      outputFormat = or_default (ClaudeToolArguments.outputFormat args) ''json'',
      jsonSchema = ClaudeToolArguments.jsonSchema args,
      systemPrompt = ClaudeToolArguments.systemPrompt args,
      appendSystemPrompt = ClaudeToolArguments.appendSystemPrompt args,
      allowedTools = ClaudeToolArguments.allowedTools args,
      disallowedTools = ClaudeToolArguments.disallowedTools args,
      addDirs = ClaudeToolArguments.addDirs args,
      verbose = (case ClaudeToolArguments.verbose args of None \<Rightarrow> False | Some b \<Rightarrow> b),
      enableMcp = Some (case ClaudeToolArguments.enableMcp args of None \<Rightarrow> False | Some b \<Rightarrow> b),
      mcpConfigPath = ClaudeToolArguments.mcpConfigPath args\<rparr>"

text \<open>
  The first statements of \<open>handleToolCall\<close>, which come before the check of the tool name
  and outside the \<open>try\<close> block: the destructuring of \<open>params\<close>, and two log lines whose
  text reads \<open>args.model\<close>, \<open>args.timeout\<close>, \<open>args.maxRetries\<close> and
  \<open>args.prompt?.substring(0, 50)\<close>. Reading a member of \<open>undefined\<close> throws a \<open>TypeError\<close>,
  and so does calling \<open>substring\<close> on a prompt that is neither missing, nor \<open>null\<close>, nor a
  string. The result is the name and the arguments read, or the message of the error (the
  one Node gives for \<open>undefined\<close>; \<open>null\<close> in the place of \<open>params\<close> or \<open>arguments\<close> throws
  in the same way).
\<close>

definition read_params ::
  "McpToolCallParams option \<Rightarrow> string + (string \<times> ClaudeToolArguments)" where
  "read_params params =
     (case params of
        None \<Rightarrow> Inl ''Cannot destructure property 'name' of 'params' as it is undefined.''
      | Some ps \<Rightarrow>
          (case arguments ps of
             None \<Rightarrow> Inl ''Cannot read properties of undefined (reading 'model')''
           | Some args \<Rightarrow>
               (case prompt args of
                  None \<Rightarrow> Inr (McpToolCallParams.name ps, args)
                | Some JNull \<Rightarrow> Inr (McpToolCallParams.name ps, args)
                | Some (JString s) \<Rightarrow> Inr (McpToolCallParams.name ps, args)
                | Some v \<Rightarrow> Inl ''args.prompt?.substring is not a function'')))"

text \<open>
  A call \<open>run(args.prompt, options)\<close> of one of the two retry functions. They take a
  string. Without one (the prompt is missing or \<open>null\<close>), the first attempt, if the loop
  makes one, throws at \<open>prompt.substring(0, 100)\<close> in \<open>executeClaudeCli\<close>, before \<open>spawn\<close>,
  and the call is rejected; if the loop makes no attempt, the prompt is never read.
\<close>

definition call_with_prompt ::
  "json option \<Rightarrow> ClaudeCliOptions \<Rightarrow> world
     \<Rightarrow> (string \<Rightarrow> (ClaudeExecutionResult completion \<times> world) option)
     \<Rightarrow> (ClaudeExecutionResult completion \<times> world) option" where
  "call_with_prompt pr options w run =
     (case pr of
        Some (JString s) \<Rightarrow> run s
      | _ \<Rightarrow>
          if number_le (Num 1) (maxRetries options)
          then Some (Rejected
                       (''Cannot read properties of ''
                        @ (if pr = None then ''undefined'' else ''null'')
                        @ '' (reading 'substring')''), w)
          else run [])"

text \<open>
  One call of \<open>handleToolCall\<close>, run to its end. An exception thrown before the \<open>try\<close> block
  rejects the promise of the call; one thrown inside it is answered with an internal
  error; a call whose child process never ends stays pending.
\<close>

definition handleToolCall ::
  "runtime \<Rightarrow> environment \<Rightarrow> rpc_id \<Rightarrow> McpToolCallParams option \<Rightarrow> world
     \<Rightarrow> (unit completion \<times> world) option" where
  "handleToolCall rt env i params w =
     (case read_params params of
        Inl typeError \<Rightarrow> Some (Rejected typeError, w)
      | Inr (toolName, args) \<Rightarrow>
          if toolName \<notin> VALID_TOOL_NAMES then
            Some (Resolved (), sendError i (- 32601) (''Unknown tool: '' @ toolName) None w)
          else
            (let options = parseToolArguments args
             in if toolName = ''claude_generate'' \<or> toolName = ''claude_edit''
                     \<or> toolName = ''claude_refactor'' then
                  (case call_with_prompt (prompt args) options w
                          (\<lambda>s. runWithRetry rt env s options w) of
                     None \<Rightarrow> None
                   | Some (Resolved result, w1) \<Rightarrow>
                       if \<not> success result then
                         Some (Resolved (),
                               sendError i (- 32603) ''Claude CLI error'' (Some (output result)) w1)
                       else
                         Some (Resolved (),
                               sendResult i
                                 (TextContent (extractResultText (parseJSON rt) (output result)))
                                 w1)
                   | Some (Rejected errorMessage, w1) \<Rightarrow>
                       Some (Resolved (),
                             sendError i (- 32603) ''Internal error'' (Some errorMessage) w1)
                   | Some (Pending, w1) \<Rightarrow> Some (Pending, w1)
                   | Some (Died, w1) \<Rightarrow> Some (Died, w1))
                else if toolName = ''claude_generate_json'' \<or> toolName = ''claude_edit_json'' then
                  (case call_with_prompt (prompt args) options w
                          (\<lambda>s. runJsonWithRetry rt env s options w) of
                     None \<Rightarrow> None
                   | Some (Resolved result, w1) \<Rightarrow>
                       if \<not> success result then
                         Some (Resolved (),
                               sendError i (- 32603) ''JSON validation error''
                                 (Some (output result)) w1)
                       else
                         Some (Resolved (), sendResult i (TextContent (output result)) w1)
                   | Some (Rejected errorMessage, w1) \<Rightarrow>
                       Some (Resolved (),
                             sendError i (- 32603) ''Internal error'' (Some errorMessage) w1)
                   | Some (Pending, w1) \<Rightarrow> Some (Pending, w1)
                   | Some (Died, w1) \<Rightarrow> Some (Died, w1))
                else Some (Resolved (), w)))"

text \<open>
  The \<open>tools/call\<close> case of \<open>processRequest\<close>:
  \<open>handleToolCall(id, params).catch((err) => log(...))\<close>. A rejected call is logged and
  nothing else is done for it.
\<close>

definition processRequest_tools_call ::
  "runtime \<Rightarrow> environment \<Rightarrow> rpc_id \<Rightarrow> McpToolCallParams option \<Rightarrow> world
     \<Rightarrow> (unit completion \<times> world) option" where
  "processRequest_tools_call rt env i params w =
     (case handleToolCall rt env i params w of
        Some (Rejected err, w1) \<Rightarrow> Some (Resolved (), w1)
      | r \<Rightarrow> r)"

section \<open>A model of \<open>JSON.parse\<close>\<close>

text \<open>
  A parser for the JSON grammar (ECMA-404), standing for the runtime's \<open>JSON.parse\<close>
  where a statement needs it at a concrete text. Strings are read as UTF-8 bytes: a
  \<open>\u\<close> escape becomes the bytes of its code point, an unpaired surrogate those of
  U+FFFD. The recursion over nested values is bounded by a list of two units for every
  character of the text and two more, which is never exhausted (lemma
  \<open>JSON_parse_fuel\<close>).
\<close>

definition is_ws :: "char \<Rightarrow> bool" where
  "is_ws c = (c \<in> set [CHR 0x20, CHR 0x09, CHR 0x0A, CHR 0x0D])"

definition skip_ws :: "string \<Rightarrow> string" where
  "skip_ws s = dropWhile is_ws s"

definition is_digit :: "char \<Rightarrow> bool" where
  "is_digit c = (c \<in> set ''0123456789'')"

definition hex_value :: "char \<Rightarrow> nat option" where
  "hex_value c =
     map_of (zip ''0123456789abcdefABCDEF''
                 [0, 1, 2, 3, 4, 5, 6, 7, 8, 9, 10, 11, 12, 13, 14, 15, 10, 11, 12, 13, 14, 15]) c"

definition hex4 :: "char \<Rightarrow> char \<Rightarrow> char \<Rightarrow> char \<Rightarrow> nat option" where
  "hex4 a b c d =
     (case (hex_value a, hex_value b, hex_value c, hex_value d) of
        (Some x, Some y, Some z, Some u) \<Rightarrow> Some (((x * 16 + y) * 16 + z) * 16 + u)
      | _ \<Rightarrow> None)"

definition simple_escape :: "char \<Rightarrow> char option" where
  "simple_escape e =
     map_of [(CHR 0x22, CHR 0x22), (CHR 0x5C, CHR 0x5C), (CHR ''/'', CHR ''/''),
             (CHR ''b'', CHR 0x08), (CHR ''f'', CHR 0x0C), (CHR ''n'', CHR 0x0A),
             (CHR ''r'', CHR 0x0D), (CHR ''t'', CHR 0x09)] e"

fun scan_string :: "string \<Rightarrow> ((char + nat) list \<times> string) option" where
  "scan_string [] = None"
| "scan_string (c # cs) =
     (if c = CHR 0x22 then Some ([], cs)
      else if c = CHR 0x5C then
        (case cs of
           [] \<Rightarrow> None
         | e # es \<Rightarrow>
             if e = CHR ''u'' then
               (case es of
                  h1 # h2 # h3 # h4 # rest \<Rightarrow>
                    (case hex4 h1 h2 h3 h4 of
                       None \<Rightarrow> None
                     | Some u \<Rightarrow>
                         (case scan_string rest of
                            None \<Rightarrow> None
                          | Some (items, rest') \<Rightarrow> Some (Inr u # items, rest')))
                | _ \<Rightarrow> None)
             else
               (case simple_escape e of
                  None \<Rightarrow> None
                | Some ch \<Rightarrow>
                    (case scan_string es of
                       None \<Rightarrow> None
                     | Some (items, rest') \<Rightarrow> Some (Inl ch # items, rest'))))
      else if (of_char c :: nat) < 32 then None
      else
        (case scan_string cs of
           None \<Rightarrow> None
         | Some (items, rest') \<Rightarrow> Some (Inl c # items, rest')))"

definition utf8 :: "nat \<Rightarrow> string" where
  "utf8 n =
     (if n < 128 then [char_of n]
      else if n < 2048 then [char_of (192 + n div 64), char_of (128 + n mod 64)]
      else if n < 65536 then
        [char_of (224 + n div 4096), char_of (128 + (n div 64) mod 64), char_of (128 + n mod 64)]
      else
        [char_of (240 + n div 262144), char_of (128 + (n div 4096) mod 64),
         char_of (128 + (n div 64) mod 64), char_of (128 + n mod 64)])"

definition high_surrogate :: "nat \<Rightarrow> bool" where
  "high_surrogate u = (55296 \<le> u \<and> u < 56320)"

definition low_surrogate :: "nat \<Rightarrow> bool" where
  "low_surrogate u = (56320 \<le> u \<and> u < 57344)"

fun encode_items :: "(char + nat) list \<Rightarrow> string" where
  "encode_items [] = []"
| "encode_items (Inl c # xs) = c # encode_items xs"
| "encode_items (Inr hi # Inr lo # xs) =
     (if high_surrogate hi \<and> low_surrogate lo
      then utf8 (65536 + (hi - 55296) * 1024 + (lo - 56320)) @ encode_items xs
      else (if high_surrogate hi \<or> low_surrogate hi then utf8 65533 else utf8 hi)
           @ encode_items (Inr lo # xs))"
| "encode_items (Inr u # xs) =
     (if high_surrogate u \<or> low_surrogate u then utf8 65533 else utf8 u) @ encode_items xs"

definition parse_string :: "string \<Rightarrow> (string \<times> string) option" where
  "parse_string s =
     (case scan_string s of None \<Rightarrow> None | Some (items, rest) \<Rightarrow> Some (encode_items items, rest))"

text \<open>
  A number: an optional minus sign, the integer part (a single zero, or digits that do not
  start with a zero), an optional fraction, an optional exponent.
\<close>

definition span_digits :: "string \<Rightarrow> string \<times> string" where
  "span_digits s = (takeWhile is_digit s, dropWhile is_digit s)"

definition parse_int :: "string \<Rightarrow> (string \<times> string) option" where
  "parse_int s =
     (let (sign, s1) = (case s of
                          [] \<Rightarrow> ([], [])
                        | c # cs \<Rightarrow> if c = CHR ''-'' then ([c], cs) else ([], c # cs));
          (ds, rest) = span_digits s1
      in if ds = [] \<or> (length ds > 1 \<and> take 1 ds = ''0'') then None
         else Some (sign @ ds, rest))"

definition parse_frac :: "string \<Rightarrow> (string \<times> string) option" where
  "parse_frac s =
     (case s of
        [] \<Rightarrow> Some ([], [])
      | c # cs \<Rightarrow>
          if c = CHR ''.'' then
            (let (ds, rest) = span_digits cs
             in if ds = [] then None else Some (c # ds, rest))
          else Some ([], c # cs))"

definition parse_exp :: "string \<Rightarrow> (string \<times> string) option" where
  "parse_exp s =
     (case s of
        [] \<Rightarrow> Some ([], [])
      | c # cs \<Rightarrow>
          if c = CHR ''e'' \<or> c = CHR ''E'' then
            (let (sign, s1) = (case cs of
                                 [] \<Rightarrow> ([], [])
                               | d # ds \<Rightarrow>
                                   if d = CHR ''+'' \<or> d = CHR ''-'' then ([d], ds)
                                   else ([], d # ds));
                 (ds, rest) = span_digits s1
             in if ds = [] then None else Some (c # sign @ ds, rest))
          else Some ([], c # cs))"

definition parse_number :: "string \<Rightarrow> (string \<times> string) option" where
  "parse_number s =
     (case parse_int s of
        None \<Rightarrow> None
      | Some (i, s1) \<Rightarrow>
          (case parse_frac s1 of
             None \<Rightarrow> None
           | Some (f, s2) \<Rightarrow>
               (case parse_exp s2 of
                  None \<Rightarrow> None
                | Some (e, s3) \<Rightarrow> Some (i @ f @ e, s3))))"

definition parse_literal :: "string \<Rightarrow> (json \<times> string) option" where
  "parse_literal s =
     (if take 4 s = ''true'' then Some (JBool True, drop 4 s)
      else if take 5 s = ''false'' then Some (JBool False, drop 5 s)
      else if take 4 s = ''null'' then Some (JNull, drop 4 s)
      else None)"

fun parse_value :: "string \<Rightarrow> string \<Rightarrow> (json \<times> string) option"
  and parse_elements :: "string \<Rightarrow> string \<Rightarrow> json list \<Rightarrow> (json \<times> string) option"
  and parse_members :: "string \<Rightarrow> string \<Rightarrow> (string \<times> json) list \<Rightarrow> (json \<times> string) option"
where
  "parse_value [] s = None"
| "parse_value (f # fuel) s =
     (case skip_ws s of
        [] \<Rightarrow> None
      | c # cs \<Rightarrow>
          if c = CHR ''{'' then
            (if take 1 (skip_ws cs) = ''}'' then Some (JObject [], drop 1 (skip_ws cs))
             else parse_members fuel cs [])
          else if c = CHR ''['' then
            (if take 1 (skip_ws cs) = '']'' then Some (JArray [], drop 1 (skip_ws cs))
             else parse_elements fuel cs [])
          else if c = CHR 0x22 then
            (case parse_string cs of
               None \<Rightarrow> None
             | Some (str, rest) \<Rightarrow> Some (JString str, rest))
          else if c = CHR ''-'' \<or> is_digit c then
            (case parse_number (c # cs) of
               None \<Rightarrow> None
             | Some (lit, rest) \<Rightarrow> Some (JNumber lit, rest))
          else parse_literal (c # cs))"
| "parse_elements [] s acc = None"
| "parse_elements (f # fuel) s acc =
     (case parse_value fuel s of
        None \<Rightarrow> None
      | Some (v, rest) \<Rightarrow>
          (case skip_ws rest of
             [] \<Rightarrow> None
           | c # cs \<Rightarrow>
               if c = CHR '','' then parse_elements fuel cs (acc @ [v])
               else if c = CHR '']'' then Some (JArray (acc @ [v]), cs)
               else None))"
| "parse_members [] s acc = None"
| "parse_members (f # fuel) s acc =
     (case skip_ws s of
        [] \<Rightarrow> None
      | q # s1 \<Rightarrow>
          if q \<noteq> CHR 0x22 then None
          else
            (case parse_string s1 of
               None \<Rightarrow> None
             | Some (k, s2) \<Rightarrow>
                 (case skip_ws s2 of
                    [] \<Rightarrow> None
                  | colon # s3 \<Rightarrow>
                      if colon \<noteq> CHR '':'' then None
                      else
                        (case parse_value fuel s3 of
                           None \<Rightarrow> None
                         | Some (v, rest) \<Rightarrow>
                             (case skip_ws rest of
                                [] \<Rightarrow> None
                              | c # cs \<Rightarrow>
                                  if c = CHR '','' then parse_members fuel cs (acc @ [(k, v)])
                                  else if c = CHR ''}'' then Some (JObject (acc @ [(k, v)]), cs)
                                  else None)))))"

definition JSON_parse :: "string \<Rightarrow> json option" where
  "JSON_parse s =
     (case parse_value (CHR ''.'' # CHR ''.'' # s @ s) s of
        None \<Rightarrow> None
      | Some (v, rest) \<Rightarrow> if skip_ws rest = [] then Some v else None)"

section \<open>An instance of the runtime\<close>

text \<open>
  The statements that evaluate the code at a concrete input need a runtime to evaluate it
  with. Each function of the instance \<open>node\<close> is given where what Node computes is known
  without rounding and without decoding, and is \<open>None\<close> elsewhere; \<open>node\<close> is unspecified
  there, and no statement applies it there.
\<close>

fun digit_char :: "nat \<Rightarrow> char" where
  "digit_char n = ''0123456789'' ! (n mod 10)"

text \<open>The decimal digits of an integer that is not negative.\<close>

function digits :: "int \<Rightarrow> string" where
  "digits n =
     (if n < 10 then [digit_char (nat n)]
      else digits (n div 10) @ [digit_char (nat (n mod 10))])"
  by pat_completeness auto
termination
  by (relation "measure (\<lambda>n. nat n)") auto

declare digits.simps [simp del]

text \<open>
  The digits of a positive number that has a finite decimal expansion: the integer \<open>s\<close>
  without trailing zero and the exponent \<open>n\<close> with \<open>q = 0.s * 10^n\<close>.
\<close>

function strip_zeros :: "int \<Rightarrow> int \<times> int" where
  "strip_zeros m =
     (if 0 < m \<and> m mod 10 = 0
      then (let (s, z) = strip_zeros (m div 10) in (s, z + 1))
      else (m, 0))"
  by pat_completeness auto
termination
  by (relation "measure (\<lambda>m. nat m)") auto

declare strip_zeros.simps [simp del]

fun decimal_scale :: "nat \<Rightarrow> rat \<Rightarrow> int \<Rightarrow> (int \<times> int) option" where
  "decimal_scale 0 q j = None"
| "decimal_scale (Suc fuel) q j =
     (if q = of_int \<lfloor>q\<rfloor> then Some (\<lfloor>q\<rfloor>, j) else decimal_scale fuel (q * 10) (j + 1))"

text \<open>
  A double prints as the shortest decimal numeral that reads back as the same double.
  For a number written with at most 15 significant digits in the range of the normal
  doubles, and for an integer up to \<open>2^53\<close>, these are its own digits.
\<close>

definition shortest_digits :: "rat \<Rightarrow> (string \<times> int) option" where
  "shortest_digits q =
     (case decimal_scale 400 q 0 of
        None \<Rightarrow> None
      | Some (m, j) \<Rightarrow>
          (let (s, z) = strip_zeros m;
               ds = digits s;
               k = int (length ds);
               n = k + z - j
           in if (k \<le> 15 \<and> - 300 \<le> n \<and> n \<le> 308) \<or> (j = 0 \<and> m \<le> 2 ^ 53)
              then Some (ds, n) else None))"

text \<open>
  \<open>Number::toString\<close> (ECMA-262) on the digits \<open>ds\<close> and the exponent \<open>n\<close>: plain notation
  for \<open>10^-7 \<le> x < 10^21\<close>, exponent notation otherwise.
\<close>

definition format_digits :: "string \<Rightarrow> int \<Rightarrow> string" where
  "format_digits ds n =
     (let k = int (length ds)
      in if k \<le> n \<and> n \<le> 21 then ds @ replicate (nat (n - k)) (CHR ''0'')
         else if 0 < n \<and> n \<le> 21 then take (nat n) ds @ ''.'' @ drop (nat n) ds
         else if - 6 < n \<and> n \<le> 0 then ''0.'' @ replicate (nat (- n)) (CHR ''0'') @ ds
         else
           (let e = n - 1;
                es = (if e < 0 then ''-'' else ''+'') @ digits (abs e)
            in if k = 1 then ds @ ''e'' @ es
               else take 1 ds @ ''.'' @ drop 1 ds @ ''e'' @ es))"

definition Number_toString :: "number \<Rightarrow> string option" where
  "Number_toString x =
     (case x of
        NaN \<Rightarrow> Some ''NaN''
      | Infinity \<Rightarrow> Some ''Infinity''
      | NegInfinity \<Rightarrow> Some ''-Infinity''
      | Num q \<Rightarrow>
          if q = 0 then Some ''0''
          else (case shortest_digits (abs q) of
                  None \<Rightarrow> None
                | Some (ds, n) \<Rightarrow> Some ((if q < 0 then ''-'' else []) @ format_digits ds n)))"

text \<open>The product of two integers is exact when it does not exceed \<open>2^53\<close>.\<close>

definition Number_multiply :: "number \<Rightarrow> number \<Rightarrow> number option" where
  "Number_multiply a b =
     (case (a, b) of
        (Num x, Num y) \<Rightarrow>
          if x = of_int \<lfloor>x\<rfloor> \<and> y = of_int \<lfloor>y\<rfloor> \<and> abs (x * y) \<le> 2 ^ 53
          then Some (Num (x * y)) else None
      | _ \<Rightarrow> None)"

text \<open>Bytes below 128 are ASCII text, which decodes to itself.\<close>

definition ascii_toString :: "string \<Rightarrow> string option" where
  "ascii_toString b = (if list_all (\<lambda>c. (of_char c :: nat) < 128) b then Some b else None)"

definition node :: runtime where
  "node =
     \<lparr>parseJSON = JSON_parse,
      numberToString = (\<lambda>n. the (Number_toString n)),
      multiply = (\<lambda>a b. the (Number_multiply a b)),
      utf8ToString = (\<lambda>b. the (ascii_toString b))\<rparr>"

section \<open>Notions used in the statements\<close>

text \<open>The events that only carry output, and the text they carry on each stream.\<close>

fun is_data :: "proc_event \<Rightarrow> bool" where
  "is_data (StdoutData c) = True"
| "is_data (StderrData c) = True"
| "is_data e = False"

fun is_terminal :: "proc_event \<Rightarrow> bool" where
  "is_terminal (Close c) = True"
| "is_terminal (ProcError m) = True"
| "is_terminal e = False"

fun is_stdin_error :: "proc_event \<Rightarrow> bool" where
  "is_stdin_error (StdinError m) = True"
| "is_stdin_error e = False"

fun stdout_of :: "proc_event list \<Rightarrow> string" where
  "stdout_of [] = []"
| "stdout_of (StdoutData c # es) = c @ stdout_of es"
| "stdout_of (e # es) = stdout_of es"

fun stderr_of :: "proc_event list \<Rightarrow> string" where
  "stderr_of [] = []"
| "stderr_of (StderrData c # es) = c @ stderr_of es"
| "stderr_of (e # es) = stderr_of es"

fun is_sleep :: "effect \<Rightarrow> bool" where
  "is_sleep (Sleep ms) = True"
| "is_sleep e = False"

text \<open>
  An argument list read as a command line: a flag that takes a value is followed by its
  value, which is not read as a flag whatever it holds; \<open>flag_values f args\<close> are the
  values given to the flag \<open>f\<close>, in order, one for each time the flag occurs.
\<close>

definition value_flags :: "string list" where
  "value_flags =
     [''--model'', ''--output-format'', ''--max-turns'', ''--json-schema'',
      ''--system-prompt'', ''--append-system-prompt'', ''--allowedTools'',
      ''--disallowedTools'', ''--add-dir'']"

fun flag_values :: "string \<Rightarrow> js_value list \<Rightarrow> js_value list" where
  "flag_values f (Str g # v # rest) =
     (if g \<in> set value_flags
      then (if g = f then [v] else []) @ flag_values f rest
      else flag_values f (v # rest))"
| "flag_values f (x # rest) = flag_values f rest"
| "flag_values f [] = []"

text \<open>The world before anything has happened, and arguments that hold only a prompt.\<close>

definition world0 :: world where
  "world0 = \<lparr>spawned = 0, trace = []\<rparr>"

definition prompt_only :: "string \<Rightarrow> ClaudeToolArguments" where
  "prompt_only p =
     \<lparr>prompt = Some (JString p), model = None, timeout = None, maxRetries = None, maxTurns = None,
      outputFormat = None, jsonSchema = None, systemPrompt = None,
      appendSystemPrompt = None, allowedTools = None, disallowedTools = None,
      addDirs = None, verbose = None, enableMcp = None, mcpConfigPath = None\<rparr>"


section \<open>The JSON model never runs out of fuel\<close>

text \<open>
  A successful parse returns a rest that is no longer than its input, so a list of
  elements or members is read from ever shorter texts; with two units of fuel for every
  character, more fuel never changes a result.
\<close>

lemma length_skip_ws: "length (skip_ws s) \<le> length s"
  by (simp add: skip_ws_def length_dropWhile_le)

lemma skip_ws_Cons: "skip_ws s = c # cs \<Longrightarrow> length cs < length s"
  using length_skip_ws [of s] by simp

lemma scan_string_shorter:
  "scan_string s = Some (items, rest) \<Longrightarrow> length rest < length s"
proof (induction s arbitrary: items rest rule: scan_string.induct)
  case 1
  then show ?case by simp
next
  case (2 c cs)
  show ?case
  proof (cases "c = CHR 0x22")
    case True
    with "2.prems" show ?thesis by simp
  next
    case nq: False
    show ?thesis
    proof (cases "c = CHR 0x5C")
      case bs: True
      show ?thesis
      proof (cases cs)
        case Nil
        with "2.prems" nq bs show ?thesis by simp
      next
        case (Cons e es)
        show ?thesis
        proof (cases "e = CHR ''u''")
          case u: True
          from "2.prems" nq bs Cons u obtain h1 h2 h3 h4 r u' items' where
            es: "es = h1 # h2 # h3 # h4 # r" and hx: "hex4 h1 h2 h3 h4 = Some u'"
            and sc: "scan_string r = Some (items', rest)"
            by (auto split: list.splits option.splits)
          have "length rest < length r"
            using "2.IH"(1) [OF nq bs Cons u es refl refl refl hx sc] .
          then show ?thesis using Cons es by simp
        next
          case nu: False
          from "2.prems" nq bs Cons nu obtain ch items' where
            se: "simple_escape e = Some ch" and sc: "scan_string es = Some (items', rest)"
            by (auto split: option.splits)
          have "length rest < length es"
            using "2.IH"(2) [OF nq bs Cons nu se sc] .
          then show ?thesis using Cons by simp
        qed
      qed
    next
      case nbs: False
      from "2.prems" nq nbs obtain items' where
        ct: "\<not> (of_char c :: nat) < 32" and sc: "scan_string cs = Some (items', rest)"
        by (auto split: if_splits option.splits)
      have "length rest < length cs"
        using "2.IH"(3) [OF nq nbs ct sc] .
      then show ?thesis by simp
    qed
  qed
qed

lemma parse_string_shorter:
  "parse_string s = Some (str, rest) \<Longrightarrow> length rest < length s"
  by (auto simp: parse_string_def scan_string_shorter split: option.splits)

lemma span_digits_shorter: "span_digits s = (ds, rest) \<Longrightarrow> length rest \<le> length s"
  by (auto simp: span_digits_def length_dropWhile_le)

lemma parse_int_shorter: "parse_int s = Some (lit, rest) \<Longrightarrow> length rest \<le> length s"
  by (auto simp: parse_int_def Let_def split: list.splits if_splits prod.splits
           dest!: span_digits_shorter)

lemma parse_frac_shorter: "parse_frac s = Some (lit, rest) \<Longrightarrow> length rest \<le> length s"
  by (auto simp: parse_frac_def Let_def split: list.splits if_splits prod.splits
           dest!: span_digits_shorter)

lemma parse_exp_shorter: "parse_exp s = Some (lit, rest) \<Longrightarrow> length rest \<le> length s"
  by (auto simp: parse_exp_def Let_def split: list.splits if_splits prod.splits
           dest!: span_digits_shorter)

lemma parse_number_shorter:
  "parse_number s = Some (lit, rest) \<Longrightarrow> length rest \<le> length s"
  by (auto simp: parse_number_def split: option.splits
           dest!: parse_int_shorter parse_frac_shorter parse_exp_shorter)

lemma parse_literal_shorter:
  "parse_literal s = Some (v, rest) \<Longrightarrow> length rest \<le> length s"
  by (auto simp: parse_literal_def split: if_splits)

lemma parse_shorter:
  "(\<forall>v rest. parse_value fuel s = Some (v, rest) \<longrightarrow> length rest \<le> length s)"
  "(\<forall>v rest. parse_elements fuel s es = Some (v, rest) \<longrightarrow> length rest \<le> length s)"
  "(\<forall>v rest. parse_members fuel s ms = Some (v, rest) \<longrightarrow> length rest \<le> length s)"
proof (induction fuel s and fuel s es and fuel s ms
       rule: parse_value_parse_elements_parse_members.induct)
  case (1 s)
  show ?case by simp
next
  case (2 f fuel s)
  show ?case
  proof (intro allI impI)
    fix v rest assume a: "parse_value (f # fuel) s = Some (v, rest)"
    then obtain c cs where sk: "skip_ws s = c # cs"
      by (auto split: list.splits)
    have cs: "length cs < length s" using sk by (rule skip_ws_Cons)
    have sc: "length (skip_ws cs) \<le> length cs" by (rule length_skip_ws)
    show "length rest \<le> length s"
    proof (cases "c = CHR ''{''")
      case ob: True
      show ?thesis
      proof (cases "take 1 (skip_ws cs) = ''}''")
        case True
        with a sk ob have "rest = drop 1 (skip_ws cs)" by simp
        then show ?thesis using cs sc by simp
      next
        case False
        with a sk ob have "parse_members fuel cs [] = Some (v, rest)" by simp
        then have "length rest \<le> length cs" using "2.IH"(1) [OF sk ob False] by blast
        then show ?thesis using cs by simp
      qed
    next
      case nob: False
      show ?thesis
      proof (cases "c = CHR ''[''")
        case oa: True
        show ?thesis
        proof (cases "take 1 (skip_ws cs) = '']''")
          case True
          with a sk nob oa have "rest = drop 1 (skip_ws cs)" by simp
          then show ?thesis using cs sc by simp
        next
          case False
          with a sk nob oa have "parse_elements fuel cs [] = Some (v, rest)" by simp
          then have "length rest \<le> length cs" using "2.IH"(2) [OF sk nob oa False] by blast
          then show ?thesis using cs by simp
        qed
      next
        case noa: False
        have l: "length (c # cs) \<le> length s" using cs by simp
        from a sk nob noa have
          "(\<exists>str. parse_string cs = Some (str, rest))
           \<or> (\<exists>lit. parse_number (c # cs) = Some (lit, rest))
           \<or> parse_literal (c # cs) = Some (v, rest)"
          by (auto split: if_splits option.splits)
        then show ?thesis
          using l parse_string_shorter [of cs _ rest] parse_number_shorter [of "c # cs" _ rest]
            parse_literal_shorter [of "c # cs" v rest]
          by fastforce
      qed
    qed
  qed
next
  case (3 s acc)
  show ?case by simp
next
  case (4 f fuel s acc)
  show ?case
  proof (intro allI impI)
    fix v rest assume a: "parse_elements (f # fuel) s acc = Some (v, rest)"
    then obtain x y c cs where pv: "parse_value fuel s = Some (x, y)" and sk: "skip_ws y = c # cs"
      by (auto split: option.splits list.splits)
    have y: "length y \<le> length s" using "4.IH"(1) pv by blast
    have cs: "length cs < length y" using sk by (rule skip_ws_Cons)
    show "length rest \<le> length s"
    proof (cases "c = CHR '',''")
      case True
      with a pv sk have "parse_elements fuel cs (acc @ [x]) = Some (v, rest)" by simp
      then have "length rest \<le> length cs"
        using "4.IH"(2) [OF pv refl sk True] by blast
      then show ?thesis using cs y by simp
    next
      case False
      with a pv sk have "rest = cs" by (auto split: if_splits)
      then show ?thesis using cs y by simp
    qed
  qed
next
  case (5 s acc)
  show ?case by simp
next
  case (6 f fuel s acc)
  show ?case
  proof (intro allI impI)
    fix v rest assume a: "parse_members (f # fuel) s acc = Some (v, rest)"
    then obtain q s1 k s2 colon s3 x y c cs where
      sk: "skip_ws s = q # s1" and q: "\<not> q \<noteq> CHR 0x22"
      and ps: "parse_string s1 = Some (k, s2)"
      and sk2: "skip_ws s2 = colon # s3" and co: "\<not> colon \<noteq> CHR '':''"
      and pv: "parse_value fuel s3 = Some (x, y)" and sk3: "skip_ws y = c # cs"
      by (auto split: option.splits list.splits if_splits)
    have 1: "length s1 < length s" using sk by (rule skip_ws_Cons)
    have 2: "length s2 < length s1" using ps by (rule parse_string_shorter)
    have 3: "length s3 < length s2" using sk2 by (rule skip_ws_Cons)
    have 4: "length y \<le> length s3"
      using "6.IH"(1) [OF sk q ps refl sk2 co] pv by blast
    have 5: "length cs < length y" using sk3 by (rule skip_ws_Cons)
    show "length rest \<le> length s"
    proof (cases "c = CHR '',''")
      case True
      with a sk q ps sk2 co pv sk3
      have "parse_members fuel cs (acc @ [(k, x)]) = Some (v, rest)" by simp
      then have "length rest \<le> length cs"
        using "6.IH"(2) [OF sk q ps refl sk2 co pv refl sk3 True] by blast
      then show ?thesis using 1 2 3 4 5 by simp
    next
      case False
      with a sk q ps sk2 co pv sk3 have "rest = cs" by (auto split: if_splits)
      then show ?thesis using 1 2 3 4 5 by simp
    qed
  qed
qed


lemma parse_fuel_enough:
  "(\<forall>g. 2 * length s + 1 \<le> length fuel \<and> 2 * length s + 1 \<le> length g
        \<longrightarrow> parse_value fuel s = parse_value g s)"
  "(\<forall>g. 2 * length s + 2 \<le> length fuel \<and> 2 * length s + 2 \<le> length g
        \<longrightarrow> parse_elements fuel s es = parse_elements g s es)"
  "(\<forall>g. 2 * length s + 2 \<le> length fuel \<and> 2 * length s + 2 \<le> length g
        \<longrightarrow> parse_members fuel s ms = parse_members g s ms)"
proof (induction fuel s and fuel s es and fuel s ms
       rule: parse_value_parse_elements_parse_members.induct)
  case (1 s)
  show ?case by simp
next
  case (2 f fuel s)
  show ?case
  proof (intro allI impI)
    fix g :: string assume b: "2 * length s + 1 \<le> length (f # fuel) \<and> 2 * length s + 1 \<le> length g"
    then obtain f' g' where g: "g = f' # g'" by (cases g) auto
    show "parse_value (f # fuel) s = parse_value g s"
    proof (cases "skip_ws s")
      case Nil
      then show ?thesis by (simp add: g)
    next
      case (Cons c cs)
      have cs: "length cs < length s" using Cons by (rule skip_ws_Cons)
      have m: "parse_members fuel cs [] = parse_members g' cs []"
        if "c = CHR ''{''" "take 1 (skip_ws cs) \<noteq> ''}''"
        using "2.IH"(1) [OF Cons that] b g cs by (auto simp del: parse_members.simps)
      have e: "parse_elements fuel cs [] = parse_elements g' cs []"
        if "c \<noteq> CHR ''{''" "c = CHR ''[''" "take 1 (skip_ws cs) \<noteq> '']''"
        using "2.IH"(2) [OF Cons that] b g cs by (auto simp del: parse_elements.simps)
      show ?thesis
        unfolding g using m e by (simp add: Cons)
    qed
  qed
next
  case (3 s acc)
  show ?case by simp
next
  case (4 f fuel s acc)
  show ?case
  proof (intro allI impI)
    fix g :: string assume b: "2 * length s + 2 \<le> length (f # fuel) \<and> 2 * length s + 2 \<le> length g"
    then obtain f' g' where g: "g = f' # g'" by (cases g) auto
    have v: "parse_value fuel s = parse_value g' s"
      using "4.IH"(1) b g by (auto simp del: parse_value.simps)
    show "parse_elements (f # fuel) s acc = parse_elements g s acc"
    proof (cases "parse_value fuel s")
      case None
      moreover have "parse_value g' s = None" using None v by simp
      ultimately show ?thesis by (simp add: g)
    next
      case (Some xy)
      obtain x y where xy: "xy = (x, y)" by (cases xy)
      have pf: "parse_value fuel s = Some (x, y)" using Some xy by simp
      have pg: "parse_value g' s = Some (x, y)" using pf v by simp
      have y: "length y \<le> length s" using parse_shorter(1) Some xy by blast
      show ?thesis
      proof (cases "skip_ws y")
        case Nil
        then show ?thesis by (simp add: g pf pg)
      next
        case (Cons c cs)
        have cs: "length cs < length y" using Cons by (rule skip_ws_Cons)
        have r: "parse_elements fuel cs (acc @ [x]) = parse_elements g' cs (acc @ [x])"
          if "c = CHR '',''"
          using "4.IH"(2) [OF Some xy [symmetric] Cons that] b g cs y
          by (auto simp del: parse_elements.simps)
        show ?thesis
          unfolding g using r by (simp add: pf pg Cons)
      qed
    qed
  qed
next
  case (5 s acc)
  show ?case by simp
next
  case (6 f fuel s acc)
  show ?case
  proof (intro allI impI)
    fix g :: string assume b: "2 * length s + 2 \<le> length (f # fuel) \<and> 2 * length s + 2 \<le> length g"
    then obtain f' g' where g: "g = f' # g'" by (cases g) auto
    show "parse_members (f # fuel) s acc = parse_members g s acc"
    proof (cases "skip_ws s")
      case Nil
      then show ?thesis by (simp add: g)
    next
      case sk: (Cons q s1)
      have 1: "length s1 < length s" using sk by (rule skip_ws_Cons)
      show ?thesis
      proof (cases "q \<noteq> CHR 0x22")
        case True
        then show ?thesis using sk by (simp add: g)
      next
        case q: False
        show ?thesis
        proof (cases "parse_string s1")
          case None
          then show ?thesis using sk q by (simp add: g)
        next
          case ps: (Some ks)
          obtain k s2 where ks: "ks = (k, s2)" by (cases ks)
          have 2: "length s2 < length s1" using ps ks parse_string_shorter by blast
          show ?thesis
          proof (cases "skip_ws s2")
            case Nil
            then show ?thesis using sk q ps ks by (simp add: g)
          next
            case sk2: (Cons colon s3)
            have 3: "length s3 < length s2" using sk2 by (rule skip_ws_Cons)
            show ?thesis
            proof (cases "colon \<noteq> CHR '':''")
              case True
              then show ?thesis using sk q ps ks sk2 by (simp add: g)
            next
              case co: False
              have v: "parse_value fuel s3 = parse_value g' s3"
                using "6.IH"(1) [OF sk q ps ks [symmetric] sk2 co] b g 1 2 3
                by (auto simp del: parse_value.simps)
              show ?thesis
              proof (cases "parse_value fuel s3")
                case None
                moreover have "parse_value g' s3 = None" using None v by simp
                ultimately show ?thesis using sk q ps ks sk2 co by (simp add: g)
              next
                case pv: (Some xy)
                obtain x y where xy: "xy = (x, y)" by (cases xy)
                have pf: "parse_value fuel s3 = Some (x, y)" using pv xy by simp
                have pg: "parse_value g' s3 = Some (x, y)" using pf v by simp
                have 4: "length y \<le> length s3" using parse_shorter(1) pv xy by blast
                show ?thesis
                proof (cases "skip_ws y")
                  case Nil
                  then show ?thesis using sk q ps ks sk2 co by (simp add: g pf pg)
                next
                  case sk3: (Cons c cs)
                  have 5: "length cs < length y" using sk3 by (rule skip_ws_Cons)
                  have r: "parse_members fuel cs (acc @ [(k, x)])
                             = parse_members g' cs (acc @ [(k, x)])"
                    if "c = CHR '',''"
                    using "6.IH"(2) [OF sk q ps ks [symmetric] sk2 co pv xy [symmetric] sk3 that]
                      b g 1 2 3 4 5
                    by (auto simp del: parse_members.simps)
                  show ?thesis
                    unfolding g using r sk q ps ks sk2 co sk3 by (simp add: pf pg)
                qed
              qed
            qed
          qed
        qed
      qed
    qed
  qed
qed

lemma JSON_parse_fuel:
  "2 * length s + 2 \<le> length fuel \<Longrightarrow>
   parse_value fuel s = parse_value (CHR ''.'' # CHR ''.'' # s @ s) s"
  using parse_fuel_enough(1) [of s fuel] by (simp del: parse_value.simps)

section \<open>Command-line arguments\<close>

lemma Set_add_old: "x \<in> set s \<Longrightarrow> Set_add s x = s"
  by (simp add: Set_add_def)

lemma Set_add_new: "x \<notin> set s \<Longrightarrow> Set_add s x = s @ [x]"
  by (simp add: Set_add_def)

lemma set_Set_add: "set (Set_add s x) = insert x (set s)"
  by (auto simp: Set_add_def)

lemma distinct_Set_add: "distinct s \<Longrightarrow> distinct (Set_add s x)"
  by (simp add: Set_add_def)

lemma foldl_Set_add_append: "\<exists>zs. foldl Set_add acc xs = acc @ zs"
proof (induction xs arbitrary: acc)
  case Nil
  show ?case by simp
next
  case (Cons x xs)
  obtain zs where "foldl Set_add (Set_add acc x) xs = Set_add acc x @ zs"
    using Cons.IH by blast
  then show ?case
    by (cases "x \<in> set acc") (simp_all add: Set_add_old Set_add_new)
qed

lemma foldl_Set_add_set: "set (foldl Set_add acc xs) = set acc \<union> set xs"
  by (induction xs arbitrary: acc) (auto simp: set_Set_add)

lemma foldl_Set_add_distinct: "distinct acc \<Longrightarrow> distinct (foldl Set_add acc xs)"
  by (induction xs arbitrary: acc) (auto simp: distinct_Set_add)

lemma foldl_Set_add_fresh: "distinct (acc @ xs) \<Longrightarrow> foldl Set_add acc xs = acc @ xs"
  by (induction xs arbitrary: acc) (auto simp: Set_add_old Set_add_new)

lemma new_Set_prefix: "distinct ds \<Longrightarrow> take (length ds) (new_Set (ds @ cs)) = ds"
proof -
  assume d: "distinct ds"
  have "new_Set (ds @ cs) = foldl Set_add (foldl Set_add [] ds) cs"
    by (simp add: new_Set_def)
  also have "foldl Set_add [] ds = ds"
    using foldl_Set_add_fresh [of "[]" ds] d by simp
  finally obtain zs where "new_Set (ds @ cs) = ds @ zs"
    using foldl_Set_add_append [of ds cs] by auto
  then show ?thesis by simp
qed

lemma DEFAULT_distinct: "distinct DEFAULT_DISALLOWED_TOOLS \<and> length DEFAULT_DISALLOWED_TOOLS = 7"
  by (simp add: DEFAULT_DISALLOWED_TOOLS_def)

lemma set_array_or_empty:
  "set (array_or_empty xs) = (case xs of None \<Rightarrow> {} | Some ys \<Rightarrow> set ys)"
  by (simp add: array_or_empty_def split: option.split)

lemma flag_values_lone:
  "g \<notin> set value_flags \<Longrightarrow> flag_values f (Str g # rest) = flag_values f rest"
  by (cases rest) simp_all

lemma flag_values_flag_each:
  "g \<in> set value_flags \<Longrightarrow>
   flag_values f (flag_each g vs @ rest) = (if g = f then map Str vs else []) @ flag_values f rest"
  by (induction vs) (simp_all add: flag_each_def)

lemma flag_values_optional:
  "g \<in> set value_flags \<Longrightarrow>
   flag_values f ((if c then [Str g, v] else []) @ rest)
     = (if c \<and> g = f then [v] else []) @ flag_values f rest"
  by (cases c) auto

text \<open>
  Read as a command line, the arguments give to \<open>--disallowedTools\<close> the elements of the
  merged set, in its order of iteration, and nothing else.
\<close>

lemma flag_values_disallowed:
  "flag_values ''--disallowedTools'' (buildClaudeArgs rt options) =
     map Str (new_Set (DEFAULT_DISALLOWED_TOOLS @ array_or_empty (disallowedTools options)))"
proof -
  let ?f = "''--disallowedTools''"
  let ?tail = "flag_each ''--allowedTools'' (array_or_empty (allowedTools options))
     @ flag_each ''--disallowedTools''
         (new_Set (DEFAULT_DISALLOWED_TOOLS @ array_or_empty (disallowedTools options)))
     @ flag_each ''--add-dir'' (array_or_empty (addDirs options))
     @ (if verbose options then [Str ''--verbose''] else [])"
  have last: "flag_values ?f (if verbose options then [Str ''--verbose''] else []) = []"
    by simp
  have tail: "flag_values ?f ?tail =
     map Str (new_Set (DEFAULT_DISALLOWED_TOOLS @ array_or_empty (disallowedTools options)))"
    by (simp add: flag_values_flag_each value_flags_def last)
  have a: "flag_values ?f
             ((if truthy_string (appendSystemPrompt options)
               then [Str ''--append-system-prompt'', Str (the (appendSystemPrompt options))]
               else []) @ ?tail) = flag_values ?f ?tail"
    by (subst flag_values_optional) (simp_all add: value_flags_def)
  have s: "flag_values ?f
             ((if truthy_string (systemPrompt options)
               then [Str ''--system-prompt'', Str (the (systemPrompt options))] else [])
              @ (if truthy_string (appendSystemPrompt options)
                 then [Str ''--append-system-prompt'', Str (the (appendSystemPrompt options))]
                 else []) @ ?tail) = flag_values ?f ?tail"
    by (subst flag_values_optional) (simp_all add: value_flags_def a)
  have j: "flag_values ?f
             ((if truthy_string (jsonSchema options)
               then [Str ''--json-schema'', Str (the (jsonSchema options))] else [])
              @ (if truthy_string (systemPrompt options)
                 then [Str ''--system-prompt'', Str (the (systemPrompt options))] else [])
              @ (if truthy_string (appendSystemPrompt options)
                 then [Str ''--append-system-prompt'', Str (the (appendSystemPrompt options))]
                 else []) @ ?tail) = flag_values ?f ?tail"
    by (subst flag_values_optional) (simp_all add: value_flags_def s)
  have m: "flag_values ?f
             ((case maxTurns options of
                 None \<Rightarrow> []
               | Some n \<Rightarrow> [Str ''--max-turns'', Str (numberToString rt n)])
              @ (if truthy_string (jsonSchema options)
                 then [Str ''--json-schema'', Str (the (jsonSchema options))] else [])
              @ (if truthy_string (systemPrompt options)
                 then [Str ''--system-prompt'', Str (the (systemPrompt options))] else [])
              @ (if truthy_string (appendSystemPrompt options)
                 then [Str ''--append-system-prompt'', Str (the (appendSystemPrompt options))]
                 else []) @ ?tail) = flag_values ?f ?tail"
  proof (cases "maxTurns options")
    case None
    then show ?thesis using j by simp
  next
    case (Some n)
    then show ?thesis using j by (simp add: value_flags_def)
  qed
  show ?thesis
    unfolding buildClaudeArgs_def using m tail
    by (simp add: value_flags_def)
qed

text \<open>
  C9. Whatever the options, the values that the argument list gives to the flag
  \<open>--disallowedTools\<close> are the elements of a list \<open>ts\<close> that has no duplicates, whose
  elements are exactly the seven entries of the default deny-list and the tools the caller
  disallowed, and that starts with the default deny-list, whose seven entries are distinct.
  So each default entry and each tool of the caller gets one flag, and no entry gets two.
\<close>

theorem buildClaudeArgs_disallowed:
  "\<exists>ts.
     flag_values ''--disallowedTools'' (buildClaudeArgs rt options) = map Str ts
     \<and> distinct ts
     \<and> set ts = set DEFAULT_DISALLOWED_TOOLS
                  \<union> (case disallowedTools options of None \<Rightarrow> {} | Some cs \<Rightarrow> set cs)
     \<and> take 7 ts = DEFAULT_DISALLOWED_TOOLS
     \<and> length DEFAULT_DISALLOWED_TOOLS = 7 \<and> distinct DEFAULT_DISALLOWED_TOOLS"
proof -
  let ?ts = "new_Set (DEFAULT_DISALLOWED_TOOLS @ array_or_empty (disallowedTools options))"
  have 1: "distinct ?ts"
    unfolding new_Set_def by (rule foldl_Set_add_distinct) simp
  have 2: "set ?ts = set DEFAULT_DISALLOWED_TOOLS
                  \<union> (case disallowedTools options of None \<Rightarrow> {} | Some cs \<Rightarrow> set cs)"
    unfolding new_Set_def by (simp add: foldl_Set_add_set set_array_or_empty)
  have 3: "take 7 ?ts = DEFAULT_DISALLOWED_TOOLS"
    using new_Set_prefix [of DEFAULT_DISALLOWED_TOOLS] DEFAULT_distinct by simp
  have 4: "flag_values ''--disallowedTools'' (buildClaudeArgs rt options) = map Str ?ts"
    by (rule flag_values_disallowed)
  from 1 2 3 4 DEFAULT_distinct show ?thesis by blast
qed

text \<open>
  An instance: the caller disallows a tool of the default list and, twice, a tool of its
  own, and passes the name of the flag as system prompt. The flag is given eight values:
  the seven defaults and the caller's tool, once.
\<close>

theorem buildClaudeArgs_disallowed_witness:
  "(\<exists>ts.
      flag_values ''--disallowedTools''
        (buildClaudeArgs node
           ((parseToolArguments (prompt_only ''hi''))
              \<lparr>systemPrompt := Some ''--disallowedTools'',
               disallowedTools := Some [''Bash(npm test:*)'', ''Bash(rm:*)'', ''Bash(rm:*)'']\<rparr>))
        = map Str ts
      \<and> distinct ts
      \<and> set ts = set DEFAULT_DISALLOWED_TOOLS \<union> {''Bash(npm test:*)'', ''Bash(rm:*)''}
      \<and> take 7 ts = DEFAULT_DISALLOWED_TOOLS)
   \<and> flag_values ''--disallowedTools''
        (buildClaudeArgs node
           ((parseToolArguments (prompt_only ''hi''))
              \<lparr>systemPrompt := Some ''--disallowedTools'',
               disallowedTools := Some [''Bash(npm test:*)'', ''Bash(rm:*)'', ''Bash(rm:*)'']\<rparr>))
        = [Str ''Bash(npm run build:*)'', Str ''Bash(npm run dev:*)'', Str ''Bash(npm test:*)'',
           Str ''Bash(npm run test:run:*)'', Str ''Bash(npm run lint:*)'',
           Str ''Bash(npx tsc -b:*)'', Str ''Bash(npx eslint .:*)'', Str ''Bash(rm:*)'']"
proof -
  let ?o = "(parseToolArguments (prompt_only ''hi''))
              \<lparr>systemPrompt := Some ''--disallowedTools'',
               disallowedTools := Some [''Bash(npm test:*)'', ''Bash(rm:*)'', ''Bash(rm:*)'']\<rparr>"
  have ev: "flag_values ''--disallowedTools'' (buildClaudeArgs node ?o)
        = [Str ''Bash(npm run build:*)'', Str ''Bash(npm run dev:*)'', Str ''Bash(npm test:*)'',
           Str ''Bash(npm run test:run:*)'', Str ''Bash(npm run lint:*)'',
           Str ''Bash(npx tsc -b:*)'', Str ''Bash(npx eslint .:*)'', Str ''Bash(rm:*)'']"
    by code_simp
  obtain ts where ts:
      "flag_values ''--disallowedTools'' (buildClaudeArgs node ?o) = map Str ts"
      "distinct ts"
      "set ts = set DEFAULT_DISALLOWED_TOOLS
                  \<union> (case disallowedTools ?o of None \<Rightarrow> {} | Some cs \<Rightarrow> set cs)"
      "take 7 ts = DEFAULT_DISALLOWED_TOOLS"
    using buildClaudeArgs_disallowed [of node ?o] by blast
  from ts(3) have "set ts = set DEFAULT_DISALLOWED_TOOLS \<union> {''Bash(npm test:*)'', ''Bash(rm:*)''}"
    by auto
  with ts have "\<exists>ts.
      flag_values ''--disallowedTools'' (buildClaudeArgs node ?o) = map Str ts
      \<and> distinct ts
      \<and> set ts = set DEFAULT_DISALLOWED_TOOLS \<union> {''Bash(npm test:*)'', ''Bash(rm:*)''}
      \<and> take 7 ts = DEFAULT_DISALLOWED_TOOLS"
    by blast
  with ev show ?thesis by blast
qed

section \<open>Model names\<close>

text \<open>
  C7, as amended. The seven aliases of \<open>MODEL_MAP\<close> (each family name in lower case and
  capitalised, and \<open>Opus 4.5\<close>) map to their identifiers, and a name that is neither an
  alias nor the name of a member inherited from \<open>Object.prototype\<close> maps to the default
  (haiku) identifier.
\<close>

theorem mapModelName_exact_aliases:
  "mapModelName ''haiku'' = Str ''claude-haiku-4-5-20251001'' \<and>
   mapModelName ''Haiku'' = Str ''claude-haiku-4-5-20251001'' \<and>
   mapModelName ''sonnet'' = Str ''claude-sonnet-4-5-20250929'' \<and>
   mapModelName ''Sonnet'' = Str ''claude-sonnet-4-5-20250929'' \<and>
   mapModelName ''opus'' = Str ''claude-opus-4-5-20251101'' \<and>
   mapModelName ''Opus'' = Str ''claude-opus-4-5-20251101'' \<and>
   mapModelName ''Opus 4.5'' = Str ''claude-opus-4-5-20251101'' \<and>
   (\<forall>m. m \<notin> set (map fst MODEL_MAP) \<and> m \<notin> set Object_prototype_keys
        \<longrightarrow> mapModelName m = Str ''claude-haiku-4-5-20251001'')"
proof -
  have h: "MODEL_MAP_get ''haiku'' = Str ''claude-haiku-4-5-20251001''"
    by (simp add: MODEL_MAP_get_def MODEL_MAP_def)
  have other: "\<And>m. m \<notin> set (map fst MODEL_MAP) \<Longrightarrow> m \<notin> set Object_prototype_keys
        \<Longrightarrow> mapModelName m = Str ''claude-haiku-4-5-20251001''"
  proof -
    fix m assume a: "m \<notin> set (map fst MODEL_MAP)" and b: "m \<notin> set Object_prototype_keys"
    from a have "map_of MODEL_MAP m = None"
      by (simp add: map_of_eq_None_iff)
    with b have "MODEL_MAP_get m = Undefined"
      by (simp add: MODEL_MAP_get_def)
    then show "mapModelName m = Str ''claude-haiku-4-5-20251001''"
      by (simp add: mapModelName_def h)
  qed
  show ?thesis
    using other by (simp add: mapModelName_def MODEL_MAP_get_def MODEL_MAP_def)
qed

theorem mapModelName_exact_aliases_witness:
  "''gpt-4'' \<notin> set (map fst MODEL_MAP) \<and> ''gpt-4'' \<notin> set Object_prototype_keys \<and>
   mapModelName ''gpt-4'' = Str ''claude-haiku-4-5-20251001''"
  using mapModelName_exact_aliases
  by (simp add: MODEL_MAP_def Object_prototype_keys_def)

text \<open>
  The mapping is not case-insensitive: \<open>SONNET\<close> is no alias, so it maps to the default
  identifier and not to the sonnet one.
\<close>

theorem mapModelName_uppercase_counterexample:
  "mapModelName ''SONNET'' = Str ''claude-haiku-4-5-20251001'' \<and>
   mapModelName ''SONNET'' \<noteq> Str ''claude-sonnet-4-5-20250929''"
  by (simp add: mapModelName_def MODEL_MAP_get_def MODEL_MAP_def Object_prototype_keys_def)

text \<open>
  A name that \<open>Object.prototype\<close> defines is found by the lookup and returned as it is: a
  function, not a model identifier.
\<close>

lemma mapModelName_constructor:
  "mapModelName ''constructor'' = PrototypeMember ''constructor''"
  by (simp add: mapModelName_def MODEL_MAP_get_def MODEL_MAP_def Object_prototype_keys_def)
section \<open>Plain retry\<close>

lemma executeClaudeCli_fst [simp]:
  "fst (executeClaudeCli rt env p a t w) = process_outcome rt (env (spawned w) p a t)"
  by (simp add: executeClaudeCli_def)

lemma executeClaudeCli_snd [simp]:
  "snd (executeClaudeCli rt env p a t w)
     = w\<lparr>spawned := Suc (spawned w), trace := trace w @ [Spawn p a t]\<rparr>"
  by (simp add: executeClaudeCli_def)

lemma spawned_sleep [simp]: "spawned (sleep ms w) = spawned w"
  by (simp add: sleep_def)

lemma number_le_zero_no_attempt:
  "number_le M (Num 0) \<Longrightarrow> \<not> number_le (Num (of_int 1)) M"
  by (cases M) simp_all

lemma loop_exhausted:
  "\<not> number_le (Num (of_int k)) M \<Longrightarrow>
   runWithRetry_loop rt env p a t M k w =
     Some (Resolved \<lparr>success = False,
        output = ''Max retries reached after '' @ numberToString rt M @ '' attempts'',
        exitCode = 1\<rparr>, w)"
  by (subst runWithRetry_loop.simps) simp

lemma loop_success:
  "number_le (Num (of_int k)) M \<Longrightarrow>
   process_outcome rt (env (spawned w) p a t) = Resolved r \<Longrightarrow> success r \<Longrightarrow>
   runWithRetry_loop rt env p a t M k w =
     Some (Resolved r, w\<lparr>spawned := Suc (spawned w), trace := trace w @ [Spawn p a t]\<rparr>)"
  by (subst runWithRetry_loop.simps) (simp add: executeClaudeCli_def)

text \<open>
  A failed attempt that is not the last: the loop waits (5000 ms after a timeout, 2000 ms
  otherwise) and goes on with the next attempt.
\<close>

lemma loop_retry:
  "k < N \<Longrightarrow> k < 2 ^ 53 \<Longrightarrow>
   process_outcome rt (env (spawned w) p a t) = Resolved r \<Longrightarrow> \<not> success r \<Longrightarrow>
   runWithRetry_loop rt env p a t (Num (of_int N)) k w =
     runWithRetry_loop rt env p a t (Num (of_int N)) (k + 1)
       (sleep (if exitCode r = 124 \<or> exitCode r = 137 then 5000 else 2000)
          (w\<lparr>spawned := Suc (spawned w), trace := trace w @ [Spawn p a t]\<rparr>))"
  by (subst runWithRetry_loop.simps) (simp add: executeClaudeCli_def increment_def)

text \<open>
  The last attempt, failed: after a timeout the loop goes round once more, finds the
  counter beyond the bound and returns the synthesized outcome; otherwise it returns the
  outcome of the attempt. Neither path waits.
\<close>

lemma loop_last_failure:
  "N < 2 ^ 53 \<Longrightarrow>
   process_outcome rt (env (spawned w) p a t) = Resolved r \<Longrightarrow> \<not> success r \<Longrightarrow>
   runWithRetry_loop rt env p a t (Num (of_int N)) N w =
     Some (if exitCode r = 124 \<or> exitCode r = 137
           then Resolved \<lparr>success = False,
                  output = ''Max retries reached after '' @ numberToString rt (Num (of_int N))
                           @ '' attempts'',
                  exitCode = 1\<rparr>
           else Resolved r,
           w\<lparr>spawned := Suc (spawned w), trace := trace w @ [Spawn p a t]\<rparr>)"
  by (subst runWithRetry_loop.simps)
     (simp add: executeClaudeCli_def increment_def loop_exhausted)

lemma loop_first_success:
  assumes "nat (j - k) = n" "k \<le> j" "j \<le> N" "N \<le> 2 ^ 53"
    and "\<forall>i. k \<le> i \<and> i < j \<longrightarrow>
           (\<exists>r. process_outcome rt (env (spawned w + nat (i - k)) p a t) = Resolved r
                \<and> \<not> success r)"
    and "process_outcome rt (env (spawned w + nat (j - k)) p a t) = Resolved s" "success s"
  shows "\<exists>w'. runWithRetry_loop rt env p a t (Num (of_int N)) k w = Some (Resolved s, w')
           \<and> spawned w' = spawned w + nat (j - k) + 1
           \<and> trace w' \<noteq> [] \<and> last (trace w') = Spawn p a t"
  using assms
proof (induction n arbitrary: k w)
  case 0
  then have "k = j" by simp
  with 0 show ?case by (simp add: loop_success)
next
  case (Suc n)
  then have kj: "k < j" by linarith
  have "\<exists>r. process_outcome rt (env (spawned w + nat (k - k)) p a t) = Resolved r
             \<and> \<not> success r"
    using Suc.prems(5) kj by blast
  then obtain r where r: "process_outcome rt (env (spawned w) p a t) = Resolved r" "\<not> success r"
    by auto
  let ?w = "sleep (if exitCode r = 124 \<or> exitCode r = 137 then 5000 else 2000)
          (w\<lparr>spawned := Suc (spawned w), trace := trace w @ [Spawn p a t]\<rparr>)"
  have kN: "k < N" using kj Suc.prems(3) by linarith
  have step: "runWithRetry_loop rt env p a t (Num (of_int N)) k w
                = runWithRetry_loop rt env p a t (Num (of_int N)) (k + 1) ?w"
    using kN Suc.prems(4) r by (intro loop_retry) auto
  have idx: "\<And>i. k + 1 \<le> i \<Longrightarrow> spawned ?w + nat (i - (k + 1)) = spawned w + nat (i - k)"
    by (simp add: nat_diff_distrib')
  have "\<exists>w'. runWithRetry_loop rt env p a t (Num (of_int N)) (k + 1) ?w = Some (Resolved s, w')
           \<and> spawned w' = spawned ?w + nat (j - (k + 1)) + 1
           \<and> trace w' \<noteq> [] \<and> last (trace w') = Spawn p a t"
  proof (rule Suc.IH)
    show "nat (j - (k + 1)) = n" using Suc.prems(1) by linarith
    show "k + 1 \<le> j" using kj by simp
    show "j \<le> N" by fact
    show "N \<le> 2 ^ 53" by fact
    show "\<forall>i. k + 1 \<le> i \<and> i < j \<longrightarrow>
           (\<exists>r. process_outcome rt (env (spawned ?w + nat (i - (k + 1))) p a t) = Resolved r
                \<and> \<not> success r)"
    proof (intro allI impI)
      fix i assume i: "k + 1 \<le> i \<and> i < j"
      then have "k \<le> i \<and> i < j" by simp
      then have "\<exists>r. process_outcome rt (env (spawned w + nat (i - k)) p a t) = Resolved r
                      \<and> \<not> success r"
        using Suc.prems(5) by blast
      moreover have "spawned ?w + nat (i - (k + 1)) = spawned w + nat (i - k)"
        using idx i by blast
      ultimately show "\<exists>r. process_outcome rt (env (spawned ?w + nat (i - (k + 1))) p a t)
                             = Resolved r \<and> \<not> success r"
        by (simp only:)
    qed
    have "spawned ?w + nat (j - (k + 1)) = spawned w + nat (j - k)"
      using idx kj by simp
    then show "process_outcome rt (env (spawned ?w + nat (j - (k + 1))) p a t) = Resolved s"
      using Suc.prems(6) by (simp only:)
    show "success s" by fact
  qed
  moreover have "spawned ?w + nat (j - (k + 1)) = spawned w + nat (j - k)"
    using idx kj by simp
  ultimately show ?case using step by (simp only:)
qed

lemma loop_all_fail:
  assumes "nat (N - k) = n" "k \<le> N" "N < 2 ^ 53"
    and "\<forall>i. k \<le> i \<and> i \<le> N \<longrightarrow>
           (\<exists>r. process_outcome rt (env (spawned w + nat (i - k)) p a t) = Resolved r
                \<and> \<not> success r)"
    and "process_outcome rt (env (spawned w + nat (N - k)) p a t) = Resolved l"
  shows "\<exists>w'. runWithRetry_loop rt env p a t (Num (of_int N)) k w =
           Some (if exitCode l = 124 \<or> exitCode l = 137
                 then Resolved \<lparr>success = False,
                        output = ''Max retries reached after ''
                                 @ numberToString rt (Num (of_int N)) @ '' attempts'',
                        exitCode = 1\<rparr>
                 else Resolved l, w')
           \<and> spawned w' = spawned w + nat (N - k) + 1"
  using assms
proof (induction n arbitrary: k w)
  case 0
  then have kN: "k = N" by simp
  have "\<exists>r. process_outcome rt (env (spawned w + nat (N - k)) p a t) = Resolved r
             \<and> \<not> success r"
    using 0(4) 0(2) by blast
  with 0(5) have l: "process_outcome rt (env (spawned w) p a t) = Resolved l" "\<not> success l"
    using kN by auto
  show ?case
    unfolding kN
    using loop_last_failure [where rt = rt and env = env and w = w and r = l and N = N
                               and p = p and a = a and t = t, OF 0(3) l]
    by simp
next
  case (Suc n)
  then have kN: "k < N" by linarith
  have "\<exists>r. process_outcome rt (env (spawned w + nat (k - k)) p a t) = Resolved r
             \<and> \<not> success r"
    using Suc.prems(4) kN by (metis order_refl less_imp_le)
  then obtain r where r: "process_outcome rt (env (spawned w) p a t) = Resolved r" "\<not> success r"
    by auto
  let ?w = "sleep (if exitCode r = 124 \<or> exitCode r = 137 then 5000 else 2000)
          (w\<lparr>spawned := Suc (spawned w), trace := trace w @ [Spawn p a t]\<rparr>)"
  have step: "runWithRetry_loop rt env p a t (Num (of_int N)) k w
                = runWithRetry_loop rt env p a t (Num (of_int N)) (k + 1) ?w"
    using kN Suc.prems(3) r by (intro loop_retry) auto
  have idx: "\<And>i. k + 1 \<le> i \<Longrightarrow> spawned ?w + nat (i - (k + 1)) = spawned w + nat (i - k)"
    by (simp add: nat_diff_distrib')
  have "\<exists>w'. runWithRetry_loop rt env p a t (Num (of_int N)) (k + 1) ?w =
           Some (if exitCode l = 124 \<or> exitCode l = 137
                 then Resolved \<lparr>success = False,
                        output = ''Max retries reached after ''
                                 @ numberToString rt (Num (of_int N)) @ '' attempts'',
                        exitCode = 1\<rparr>
                 else Resolved l, w')
           \<and> spawned w' = spawned ?w + nat (N - (k + 1)) + 1"
  proof (rule Suc.IH)
    show "nat (N - (k + 1)) = n" using Suc.prems(1) by linarith
    show "k + 1 \<le> N" using kN by simp
    show "N < 2 ^ 53" by fact
    show "\<forall>i. k + 1 \<le> i \<and> i \<le> N \<longrightarrow>
           (\<exists>r. process_outcome rt (env (spawned ?w + nat (i - (k + 1))) p a t) = Resolved r
                \<and> \<not> success r)"
    proof (intro allI impI)
      fix i assume i: "k + 1 \<le> i \<and> i \<le> N"
      then have "k \<le> i \<and> i \<le> N" by simp
      then have "\<exists>r. process_outcome rt (env (spawned w + nat (i - k)) p a t) = Resolved r
                      \<and> \<not> success r"
        using Suc.prems(4) by blast
      moreover have "spawned ?w + nat (i - (k + 1)) = spawned w + nat (i - k)"
        using idx i by blast
      ultimately show "\<exists>r. process_outcome rt (env (spawned ?w + nat (i - (k + 1))) p a t)
                             = Resolved r \<and> \<not> success r"
        by (simp only:)
    qed
    have "spawned ?w + nat (N - (k + 1)) = spawned w + nat (N - k)"
      using idx kN by simp
    then show "process_outcome rt (env (spawned ?w + nat (N - (k + 1))) p a t) = Resolved l"
      using Suc.prems(5) by (simp only:)
  qed
  moreover have "spawned ?w + nat (N - (k + 1)) = spawned w + nat (N - k)"
    using idx kN by simp
  ultimately show ?case using step by (simp only:)
qed

text \<open>
  Beyond \<open>2^53\<close> the counter no longer counts: \<open>attempt++\<close> leaves it at \<open>2^53\<close>. With a
  bound \<open>N \<ge> 2^53\<close> and processes that all fail (for \<open>N = 2^53\<close>: that all time out),
  every attempt is followed by another one and \<open>runWithRetry\<close> never returns.
\<close>

lemma runWithRetry_loop_stalled:
  assumes N: "2 ^ 53 \<le> N"
    and fail: "\<And>n. \<exists>r. process_outcome rt0 (env0 n p0 a0 t0) = Resolved r \<and> \<not> success r
                    \<and> (N = 2 ^ 53 \<longrightarrow> exitCode r = 124 \<or> exitCode r = 137)"
  shows "runWithRetry_loop rt0 env0 p0 a0 t0 (Num (of_int N)) (2 ^ 53) w = None"
proof (rule ccontr)
  assume "runWithRetry_loop rt0 env0 p0 a0 t0 (Num (of_int N)) (2 ^ 53) w \<noteq> None"
  then obtain y where y: "runWithRetry_loop rt0 env0 p0 a0 t0 (Num (of_int N)) (2 ^ 53) w = Some y"
    by auto
  have "\<not> (rt0 = rt0 \<and> env0 = env0 \<and> p0 = p0 \<and> a0 = a0 \<and> t0 = t0
           \<and> Num (of_int N) = Num (of_int N) \<and> (2 ^ 53 :: int) = 2 ^ 53)"
  proof (rule runWithRetry_loop.raw_induct
           [where P = "\<lambda>rt env p a t M k w y.
                         \<not> (rt = rt0 \<and> env = env0 \<and> p = p0 \<and> a = a0 \<and> t = t0
                            \<and> M = Num (of_int N) \<and> k = 2 ^ 53)", OF _ y])
    fix f rt env p a t M k w y
    assume IH: "\<And>rt env p a t M k w y. f rt env p a t M k w = Some y \<Longrightarrow>
                  \<not> (rt = rt0 \<and> env = env0 \<and> p = p0 \<and> a = a0 \<and> t = t0
                     \<and> M = Num (of_int N) \<and> k = 2 ^ 53)"
      and body: "(if number_le (Num (of_int k)) M then
        (case executeClaudeCli rt env p a t w of
           (Resolved result, w1) \<Rightarrow>
             if success result then Some (Resolved result, w1)
             else if exitCode result = 124 \<or> exitCode result = 137 then
               (if number_less (Num (of_int k)) M
                then f rt env p a t M (increment k) (sleep 5000 w1)
                else f rt env p a t M (increment k) w1)
             else
               (if number_less (Num (of_int k)) M
                then f rt env p a t M (increment k) (sleep 2000 w1)
                else Some (Resolved result, w1))
         | (Rejected msg, w1) \<Rightarrow> Some (Rejected msg, w1)
         | (Pending, w1) \<Rightarrow> Some (Pending, w1)
         | (Died, w1) \<Rightarrow> Some (Died, w1))
      else
        Some (Resolved
           \<lparr>success = False,
            output = ''Max retries reached after '' @ numberToString rt M @ '' attempts'',
            exitCode = 1\<rparr>,
         w)) = Some y"
    show "\<not> (rt = rt0 \<and> env = env0 \<and> p = p0 \<and> a = a0 \<and> t = t0
             \<and> M = Num (of_int N) \<and> k = 2 ^ 53)"
    proof
      assume eq: "rt = rt0 \<and> env = env0 \<and> p = p0 \<and> a = a0 \<and> t = t0
                  \<and> M = Num (of_int N) \<and> k = 2 ^ 53"
      obtain r where r: "process_outcome rt0 (env0 (spawned w) p0 a0 t0) = Resolved r"
          "\<not> success r" "N = 2 ^ 53 \<longrightarrow> exitCode r = 124 \<or> exitCode r = 137"
        using fail by blast
      let ?w1 = "w\<lparr>spawned := Suc (spawned w), trace := trace w @ [Spawn p0 a0 t0]\<rparr>"
      have e: "executeClaudeCli rt0 env0 p0 a0 t0 w = (Resolved r, ?w1)"
        using r(1) by (simp add: executeClaudeCli_def)
      have inc: "increment (2 ^ 53) = 2 ^ 53" by (simp add: increment_def)
      have "\<exists>w'. f rt0 env0 p0 a0 t0 (Num (of_int N)) (2 ^ 53) w' = Some y"
      proof (cases "exitCode r = 124 \<or> exitCode r = 137")
        case True
        then show ?thesis
          using body eq e r(2) N inc by (auto split: if_splits)
      next
        case False
        then have "2 ^ 53 < N" using r(3) N by auto
        then show ?thesis
          using body eq e r(2) False inc by (auto split: if_splits)
      qed
      then show False using IH by blast
    qed
  qed
  then show False by simp
qed

lemma runWithRetry_loop_never_returns:
  assumes "nat (2 ^ 53 - k) = n" "k \<le> 2 ^ 53" "2 ^ 53 \<le> N"
    and fail: "\<And>n. \<exists>r. process_outcome rt (env n p a t) = Resolved r \<and> \<not> success r
                    \<and> (N = 2 ^ 53 \<longrightarrow> exitCode r = 124 \<or> exitCode r = 137)"
  shows "runWithRetry_loop rt env p a t (Num (of_int N)) k w = None"
  using assms(1,2)
proof (induction n arbitrary: k w)
  case 0
  then have "k = 2 ^ 53" by simp
  then show ?case
    using runWithRetry_loop_stalled
            [where N = N and ?rt0.0 = rt and ?env0.0 = env and ?p0.0 = p and ?a0.0 = a
               and ?t0.0 = t and w = w, OF assms(3) fail]
    by simp
next
  case (Suc n)
  then have k: "k < 2 ^ 53" by linarith
  then have kN: "k < N" using assms(3) by linarith
  obtain r where r: "process_outcome rt (env (spawned w) p a t) = Resolved r" "\<not> success r"
    using fail by blast
  let ?w = "sleep (if exitCode r = 124 \<or> exitCode r = 137 then 5000 else 2000)
          (w\<lparr>spawned := Suc (spawned w), trace := trace w @ [Spawn p a t]\<rparr>)"
  have "runWithRetry_loop rt env p a t (Num (of_int N)) k w
          = runWithRetry_loop rt env p a t (Num (of_int N)) (k + 1) ?w"
    using kN k r by (intro loop_retry) auto
  moreover have "runWithRetry_loop rt env p a t (Num (of_int N)) (k + 1) ?w = None"
  proof (rule Suc.IH)
    show "nat (2 ^ 53 - (k + 1)) = n" using Suc.prems(1) by linarith
    show "k + 1 \<le> 2 ^ 53" using k by simp
  qed
  ultimately show ?case by simp
qed

lemma runWithRetry_never_returns:
  assumes "maxRetries options = Num (of_int N)" and "2 ^ 53 \<le> N"
    and "\<And>n. \<exists>r. process_outcome rt
                     (env n p (buildClaudeArgs rt options)
                        (multiply rt (timeout options) (Num 1000))) = Resolved r
                \<and> \<not> success r \<and> (N = 2 ^ 53 \<longrightarrow> exitCode r = 124 \<or> exitCode r = 137)"
  shows "runWithRetry rt env p options w = None"
proof -
  have "runWithRetry_loop rt env p (buildClaudeArgs rt options)
          (multiply rt (timeout options) (Num 1000)) (Num (of_int N)) 1 w = None"
  proof (rule runWithRetry_loop_never_returns [OF refl _ assms(2)])
    show "(1::int) \<le> 2 ^ 53" by simp
    show "\<exists>r. process_outcome rt
                 (env n p (buildClaudeArgs rt options)
                    (multiply rt (timeout options) (Num 1000))) = Resolved r
            \<and> \<not> success r \<and> (N = 2 ^ 53 \<longrightarrow> exitCode r = 124 \<or> exitCode r = 137)" for n
      by (rule assms(3))
  qed
  then show ?thesis using assms(1) by (simp add: runWithRetry_def)
qed

text \<open>
  C1 speaks of every \<open>maxRetries = N \<ge> 1\<close>. It fails when \<open>N\<close> is not an integer. With
  \<open>maxRetries = 1.5\<close> and a process that exits with code 2, one attempt is made (\<open>2 <= 1.5\<close>
  is false); that attempt is the last and its exit code is neither 124 nor 137, yet
  \<open>1 < 1.5\<close> holds, so the code waits 2000 ms, leaves the loop and returns the synthesized
  outcome, not the outcome of the attempt. It also fails where the counter stops: with
  \<open>maxRetries = 2^53 + 2\<close> and the same process, and with \<open>maxRetries = 2^53\<close> and a process
  that times out, every attempt fails and nothing is ever returned.
\<close>

theorem runWithRetry_counterexample:
  "attempt_outcome node (\<lambda>n p a t. Events [Close (Some 2)]) ''hi''
       ((parseToolArguments (prompt_only ''hi''))\<lparr>maxRetries := Num (3 / 2)\<rparr>) world0 1
     = Resolved \<lparr>success = False, output = ''Exit code: 2'', exitCode = 2\<rparr>
   \<and> runWithRetry node (\<lambda>n p a t. Events [Close (Some 2)]) ''hi''
       ((parseToolArguments (prompt_only ''hi''))\<lparr>maxRetries := Num (3 / 2)\<rparr>) world0
     = Some (Resolved \<lparr>success = False, output = ''Max retries reached after 1.5 attempts'',
               exitCode = 1\<rparr>,
             \<lparr>spawned = 1,
              trace =
                [Spawn ''hi''
                   (buildClaudeArgs node
                      ((parseToolArguments (prompt_only ''hi''))\<lparr>maxRetries := Num (3 / 2)\<rparr>))
                   (Num 660000),
                 Sleep 2000]\<rparr>)
   \<and> runWithRetry node (\<lambda>n p a t. Events [Close (Some 2)]) ''hi''
       ((parseToolArguments (prompt_only ''hi''))\<lparr>maxRetries := Num (2 ^ 53 + 2)\<rparr>) world0
     = None
   \<and> runWithRetry node (\<lambda>n p a t. Events [TimerFired, Close None]) ''hi''
       ((parseToolArguments (prompt_only ''hi''))\<lparr>maxRetries := Num (2 ^ 53)\<rparr>) world0
     = None"
proof -
  let ?e2 = "\<lambda>(n::nat) (p::string) (a::js_value list) (t::number). Events [Close (Some 2)]"
  let ?e3 = "\<lambda>(n::nat) (p::string) (a::js_value list) (t::number). Events [TimerFired, Close None]"
  let ?o = "\<lambda>m. (parseToolArguments (prompt_only ''hi''))\<lparr>maxRetries := m\<rparr>"
  have a: "attempt_outcome node ?e2 ''hi'' (?o (Num (3 / 2))) world0 1
     = Resolved \<lparr>success = False, output = ''Exit code: 2'', exitCode = 2\<rparr>"
    by code_simp
  have b: "runWithRetry node ?e2 ''hi'' (?o (Num (3 / 2))) world0
     = Some (Resolved \<lparr>success = False, output = ''Max retries reached after 1.5 attempts'',
               exitCode = 1\<rparr>,
             \<lparr>spawned = 1,
              trace = [Spawn ''hi'' (buildClaudeArgs node (?o (Num (3 / 2)))) (Num 660000),
                       Sleep 2000]\<rparr>)"
    by code_simp
  have p2: "process_outcome node (Events [Close (Some 2)])
              = Resolved \<lparr>success = False, output = ''Exit code: 2'', exitCode = 2\<rparr>"
    by code_simp
  have p3: "process_outcome node (Events [TimerFired, Close None])
              = Resolved \<lparr>success = False, output = ''Command timeout'', exitCode = 124\<rparr>"
    by code_simp
  have c: "runWithRetry node ?e2 ''hi'' (?o (Num (2 ^ 53 + 2))) world0 = None"
  proof (rule runWithRetry_never_returns [where N = "2 ^ 53 + 2"])
    show "maxRetries (?o (Num (2 ^ 53 + 2))) = Num (of_int (2 ^ 53 + 2))" by simp
    show "(2::int) ^ 53 \<le> 2 ^ 53 + 2" by simp
    show "\<exists>r. process_outcome node
                 (?e2 n ''hi'' (buildClaudeArgs node (?o (Num (2 ^ 53 + 2))))
                    (multiply node (timeout (?o (Num (2 ^ 53 + 2)))) (Num 1000))) = Resolved r
            \<and> \<not> success r
            \<and> ((2::int) ^ 53 + 2 = 2 ^ 53 \<longrightarrow> exitCode r = 124 \<or> exitCode r = 137)" for n
      using p2 by simp
  qed
  have d: "runWithRetry node ?e3 ''hi'' (?o (Num (2 ^ 53))) world0 = None"
  proof (rule runWithRetry_never_returns [where N = "2 ^ 53"])
    show "maxRetries (?o (Num (2 ^ 53))) = Num (of_int (2 ^ 53))" by simp
    show "(2::int) ^ 53 \<le> 2 ^ 53" by simp
    show "\<exists>r. process_outcome node
                 (?e3 n ''hi'' (buildClaudeArgs node (?o (Num (2 ^ 53))))
                    (multiply node (timeout (?o (Num (2 ^ 53)))) (Num 1000))) = Resolved r
            \<and> \<not> success r
            \<and> ((2::int) ^ 53 = 2 ^ 53 \<longrightarrow> exitCode r = 124 \<or> exitCode r = 137)" for n
      using p3 by simp
  qed
  from a b c d show ?thesis by (simp only: simp_thms)
qed

text \<open>
  C1, as amended. Let \<open>maxRetries\<close> be an integer \<open>N\<close> with \<open>1 \<le> N < 2^53\<close>. If the attempts
  before the \<open>j\<close>-th fail and the \<open>j\<close>-th succeeds (\<open>j \<le> N\<close>), \<open>runWithRetry\<close> returns the
  outcome of the \<open>j\<close>-th attempt at once: it has spawned \<open>j\<close> processes and the last thing
  it did was to spawn the \<open>j\<close>-th. If all \<open>N\<close> attempts fail, it returns, after \<open>N\<close>
  processes, the outcome of the last attempt when that attempt's exit code is neither 124
  nor 137, and the outcome \<open>Max retries reached after N attempts\<close> with exit code 1 when it
  is one of the two. The text of \<open>N\<close> is the one the runtime prints for it.
\<close>

theorem runWithRetry_outcome:
  assumes "maxRetries options = Num (of_int N)" and "1 \<le> N" and "N < 2 ^ 53"
  shows
   "(1 \<le> j \<and> j \<le> N
       \<and> (\<forall>i. 1 \<le> i \<and> i < j \<longrightarrow>
             (\<exists>r. attempt_outcome rt env p options w i = Resolved r \<and> \<not> success r))
       \<and> attempt_outcome rt env p options w j = Resolved s \<and> success s
     \<longrightarrow> (\<exists>w'. runWithRetry rt env p options w = Some (Resolved s, w')
              \<and> spawned w' = spawned w + nat j
              \<and> last (trace w')
                  = Spawn p (buildClaudeArgs rt options) (multiply rt (timeout options) (Num 1000))))
    \<and> ((\<forall>i. 1 \<le> i \<and> i \<le> N \<longrightarrow>
             (\<exists>r. attempt_outcome rt env p options w i = Resolved r \<and> \<not> success r))
       \<and> attempt_outcome rt env p options w N = Resolved l
       \<and> exitCode l \<noteq> 124 \<and> exitCode l \<noteq> 137
     \<longrightarrow> (\<exists>w'. runWithRetry rt env p options w = Some (Resolved l, w')
              \<and> spawned w' = spawned w + nat N))
    \<and> ((\<forall>i. 1 \<le> i \<and> i \<le> N \<longrightarrow>
             (\<exists>r. attempt_outcome rt env p options w i = Resolved r \<and> \<not> success r))
       \<and> attempt_outcome rt env p options w N = Resolved l
       \<and> (exitCode l = 124 \<or> exitCode l = 137)
     \<longrightarrow> (\<exists>w'. runWithRetry rt env p options w =
                  Some (Resolved \<lparr>success = False,
                          output = ''Max retries reached after ''
                                   @ numberToString rt (Num (of_int N)) @ '' attempts'',
                          exitCode = 1\<rparr>, w')
              \<and> spawned w' = spawned w + nat N))"
proof (intro conjI impI)
  let ?a = "buildClaudeArgs rt options" and ?t = "multiply rt (timeout options) (Num 1000)"
  have run: "runWithRetry rt env p options w
               = runWithRetry_loop rt env p ?a ?t (Num (of_int N)) 1 w"
    using assms(1) by (simp add: runWithRetry_def)
  {
    assume h: "1 \<le> j \<and> j \<le> N
       \<and> (\<forall>i. 1 \<le> i \<and> i < j \<longrightarrow>
             (\<exists>r. attempt_outcome rt env p options w i = Resolved r \<and> \<not> success r))
       \<and> attempt_outcome rt env p options w j = Resolved s \<and> success s"
    have "\<exists>w'. runWithRetry_loop rt env p ?a ?t (Num (of_int N)) 1 w = Some (Resolved s, w')
           \<and> spawned w' = spawned w + nat (j - 1) + 1
           \<and> trace w' \<noteq> [] \<and> last (trace w') = Spawn p ?a ?t"
      using h assms(3)
      by (intro loop_first_success [OF refl]) (simp_all add: attempt_outcome_def)
    then obtain w' where w': "runWithRetry rt env p options w = Some (Resolved s, w')"
      "spawned w' = spawned w + nat (j - 1) + 1" "last (trace w') = Spawn p ?a ?t"
      using run by auto
    have "spawned w' = spawned w + nat j"
      using w'(2) h by (simp add: nat_diff_distrib')
    with w' show "\<exists>w'. runWithRetry rt env p options w = Some (Resolved s, w')
              \<and> spawned w' = spawned w + nat j
              \<and> last (trace w') = Spawn p ?a ?t"
      by blast
  }
  {
    assume h: "(\<forall>i. 1 \<le> i \<and> i \<le> N \<longrightarrow>
             (\<exists>r. attempt_outcome rt env p options w i = Resolved r \<and> \<not> success r))
       \<and> attempt_outcome rt env p options w N = Resolved l
       \<and> exitCode l \<noteq> 124 \<and> exitCode l \<noteq> 137"
    have "\<exists>w'. runWithRetry_loop rt env p ?a ?t (Num (of_int N)) 1 w =
           Some (if exitCode l = 124 \<or> exitCode l = 137
                 then Resolved \<lparr>success = False,
                        output = ''Max retries reached after ''
                                 @ numberToString rt (Num (of_int N)) @ '' attempts'',
                        exitCode = 1\<rparr>
                 else Resolved l, w')
           \<and> spawned w' = spawned w + nat (N - 1) + 1"
      using h assms(2,3)
      by (intro loop_all_fail [OF refl]) (simp_all add: attempt_outcome_def)
    then obtain w' where w': "runWithRetry rt env p options w = Some (Resolved l, w')"
      "spawned w' = spawned w + nat (N - 1) + 1"
      using run h by auto
    have "spawned w' = spawned w + nat N"
      using w'(2) assms(2) by (simp add: nat_diff_distrib')
    with w' show "\<exists>w'. runWithRetry rt env p options w = Some (Resolved l, w')
              \<and> spawned w' = spawned w + nat N"
      by blast
  }
  {
    assume h: "(\<forall>i. 1 \<le> i \<and> i \<le> N \<longrightarrow>
             (\<exists>r. attempt_outcome rt env p options w i = Resolved r \<and> \<not> success r))
       \<and> attempt_outcome rt env p options w N = Resolved l
       \<and> (exitCode l = 124 \<or> exitCode l = 137)"
    let ?m = "\<lparr>success = False,
                output = ''Max retries reached after ''
                         @ numberToString rt (Num (of_int N)) @ '' attempts'',
                exitCode = 1\<rparr>"
    have "\<exists>w'. runWithRetry_loop rt env p ?a ?t (Num (of_int N)) 1 w =
           Some (if exitCode l = 124 \<or> exitCode l = 137 then Resolved ?m else Resolved l, w')
           \<and> spawned w' = spawned w + nat (N - 1) + 1"
      using h assms(2,3)
      by (intro loop_all_fail [OF refl]) (simp_all add: attempt_outcome_def)
    then obtain w' where w': "runWithRetry rt env p options w = Some (Resolved ?m, w')"
      "spawned w' = spawned w + nat (N - 1) + 1"
      using run h by auto
    have "spawned w' = spawned w + nat N"
      using w'(2) assms(2) by (simp add: nat_diff_distrib')
    with w' show "\<exists>w'. runWithRetry rt env p options w = Some (Resolved ?m, w')
              \<and> spawned w' = spawned w + nat N"
      by blast
  }
qed

theorem runWithRetry_outcome_witness:
  "maxRetries ((parseToolArguments (prompt_only ''hi''))\<lparr>maxRetries := Num 2\<rparr>) = Num (of_int 2)
   \<and> attempt_outcome node
         (\<lambda>n p a t. if n = 0 then Events [StderrData ''boom'', Close (Some 2)]
                     else Events [StdoutData ''ok'', Close (Some 0)])
         ''hi'' ((parseToolArguments (prompt_only ''hi''))\<lparr>maxRetries := Num 2\<rparr>) world0 1
       = Resolved \<lparr>success = False, output = ''boom'', exitCode = 2\<rparr>
   \<and> attempt_outcome node
         (\<lambda>n p a t. if n = 0 then Events [StderrData ''boom'', Close (Some 2)]
                     else Events [StdoutData ''ok'', Close (Some 0)])
         ''hi'' ((parseToolArguments (prompt_only ''hi''))\<lparr>maxRetries := Num 2\<rparr>) world0 2
       = Resolved \<lparr>success = True, output = ''ok'', exitCode = 0\<rparr>
   \<and> (\<exists>w'. runWithRetry node
               (\<lambda>n p a t. if n = 0 then Events [StderrData ''boom'', Close (Some 2)]
                           else Events [StdoutData ''ok'', Close (Some 0)])
               ''hi'' ((parseToolArguments (prompt_only ''hi''))\<lparr>maxRetries := Num 2\<rparr>) world0
             = Some (Resolved \<lparr>success = True, output = ''ok'', exitCode = 0\<rparr>, w')
           \<and> spawned w' = 2)
   \<and> (\<exists>w'. runWithRetry node (\<lambda>n p a t. Events [Close (Some 2)])
               ''hi'' ((parseToolArguments (prompt_only ''hi''))\<lparr>maxRetries := Num 2\<rparr>) world0
             = Some (Resolved \<lparr>success = False, output = ''Exit code: 2'', exitCode = 2\<rparr>, w')
           \<and> spawned w' = 2)
   \<and> (\<exists>w'. runWithRetry node (\<lambda>n p a t. Events [TimerFired, Close None])
               ''hi'' ((parseToolArguments (prompt_only ''hi''))\<lparr>maxRetries := Num 2\<rparr>) world0
             = Some (Resolved \<lparr>success = False,
                       output = ''Max retries reached after 2 attempts'', exitCode = 1\<rparr>, w')
           \<and> spawned w' = 2)"
proof -
  let ?o = "(parseToolArguments (prompt_only ''hi''))\<lparr>maxRetries := Num 2\<rparr>"
  let ?e1 = "\<lambda>(n::nat) (p::string) (a::js_value list) (t::number).
               if n = 0 then Events [StderrData ''boom'', Close (Some 2)]
               else Events [StdoutData ''ok'', Close (Some 0)]"
  let ?e2 = "\<lambda>(n::nat) (p::string) (a::js_value list) (t::number). Events [Close (Some 2)]"
  let ?e3 = "\<lambda>(n::nat) (p::string) (a::js_value list) (t::number). Events [TimerFired, Close None]"
  have N: "maxRetries ?o = Num (of_int 2)" "(1::int) \<le> 2" "(2::int) < 2 ^ 53" by simp_all
  have a1: "attempt_outcome node ?e1 ''hi'' ?o world0 1
              = Resolved \<lparr>success = False, output = ''boom'', exitCode = 2\<rparr>"
    by code_simp
  have a2: "attempt_outcome node ?e1 ''hi'' ?o world0 2
              = Resolved \<lparr>success = True, output = ''ok'', exitCode = 0\<rparr>"
    by code_simp
  have pb: "process_outcome node (Events [Close (Some 2)])
              = Resolved \<lparr>success = False, output = ''Exit code: 2'', exitCode = 2\<rparr>"
    by code_simp
  have pc: "process_outcome node (Events [TimerFired, Close None])
              = Resolved \<lparr>success = False, output = ''Command timeout'', exitCode = 124\<rparr>"
    by code_simp
  have b: "\<And>i. attempt_outcome node ?e2 ''hi'' ?o world0 i
              = Resolved \<lparr>success = False, output = ''Exit code: 2'', exitCode = 2\<rparr>"
    using pb by (simp add: attempt_outcome_def)
  have c: "\<And>i. attempt_outcome node ?e3 ''hi'' ?o world0 i
              = Resolved \<lparr>success = False, output = ''Command timeout'', exitCode = 124\<rparr>"
    using pc by (simp add: attempt_outcome_def)
  have two: "numberToString node (Num (of_int 2)) = ''2''"
    by code_simp
  have h1: "\<forall>i. 1 \<le> i \<and> i < 2 \<longrightarrow>
              (\<exists>r. attempt_outcome node ?e1 ''hi'' ?o world0 i = Resolved r \<and> \<not> success r)"
  proof (intro allI impI)
    fix i :: int assume "1 \<le> i \<and> i < 2"
    then have "i = 1" by arith
    then show "\<exists>r. attempt_outcome node ?e1 ''hi'' ?o world0 i = Resolved r \<and> \<not> success r"
      using a1 by simp
  qed
  have h2: "\<forall>i. 1 \<le> i \<and> i \<le> 2 \<longrightarrow>
              (\<exists>r. attempt_outcome node ?e2 ''hi'' ?o world0 i = Resolved r \<and> \<not> success r)"
    using b by simp
  have h3: "\<forall>i. 1 \<le> i \<and> i \<le> 2 \<longrightarrow>
              (\<exists>r. attempt_outcome node ?e3 ''hi'' ?o world0 i = Resolved r \<and> \<not> success r)"
    using c by simp
  have A: "\<exists>w'. runWithRetry node ?e1 ''hi'' ?o world0
             = Some (Resolved \<lparr>success = True, output = ''ok'', exitCode = 0\<rparr>, w')
           \<and> spawned w' = 2"
  proof -
    have pre: "(1::int) \<le> 2 \<and> (2::int) \<le> 2
       \<and> (\<forall>i. 1 \<le> i \<and> i < 2 \<longrightarrow>
             (\<exists>r. attempt_outcome node ?e1 ''hi'' ?o world0 i = Resolved r \<and> \<not> success r))
       \<and> attempt_outcome node ?e1 ''hi'' ?o world0 2
           = Resolved \<lparr>success = True, output = ''ok'', exitCode = 0\<rparr>
       \<and> success \<lparr>success = True, output = ''ok'', exitCode = 0\<rparr>"
      using h1 a2 by simp
    have "\<exists>w'. runWithRetry node ?e1 ''hi'' ?o world0
             = Some (Resolved \<lparr>success = True, output = ''ok'', exitCode = 0\<rparr>, w')
           \<and> spawned w' = spawned world0 + nat 2
           \<and> last (trace w')
               = Spawn ''hi'' (buildClaudeArgs node ?o) (multiply node (timeout ?o) (Num 1000))"
      using runWithRetry_outcome [OF N, where j = 2 and rt = node and env = ?e1
              and p = "''hi''" and w = world0
              and s = "\<lparr>success = True, output = ''ok'', exitCode = 0\<rparr>", THEN conjunct1]
            pre
      by blast
    then show ?thesis by (auto simp: world0_def)
  qed
  have B: "\<exists>w'. runWithRetry node ?e2 ''hi'' ?o world0
             = Some (Resolved \<lparr>success = False, output = ''Exit code: 2'', exitCode = 2\<rparr>, w')
           \<and> spawned w' = 2"
  proof -
    have pre: "(\<forall>i. 1 \<le> i \<and> i \<le> 2 \<longrightarrow>
             (\<exists>r. attempt_outcome node ?e2 ''hi'' ?o world0 i = Resolved r \<and> \<not> success r))
       \<and> attempt_outcome node ?e2 ''hi'' ?o world0 2
           = Resolved \<lparr>success = False, output = ''Exit code: 2'', exitCode = 2\<rparr>
       \<and> exitCode \<lparr>success = False, output = ''Exit code: 2'', exitCode = 2\<rparr> \<noteq> 124
       \<and> exitCode \<lparr>success = False, output = ''Exit code: 2'', exitCode = 2\<rparr> \<noteq> 137"
      using h2 b by simp
    have "\<exists>w'. runWithRetry node ?e2 ''hi'' ?o world0
             = Some (Resolved \<lparr>success = False, output = ''Exit code: 2'', exitCode = 2\<rparr>, w')
           \<and> spawned w' = spawned world0 + nat 2"
      using runWithRetry_outcome [OF N, where rt = node and env = ?e2
              and p = "''hi''" and w = world0
              and l = "\<lparr>success = False, output = ''Exit code: 2'', exitCode = 2\<rparr>",
              THEN conjunct2, THEN conjunct1]
            pre
      by blast
    then show ?thesis by (auto simp: world0_def)
  qed
  have C: "\<exists>w'. runWithRetry node ?e3 ''hi'' ?o world0
             = Some (Resolved \<lparr>success = False,
                       output = ''Max retries reached after 2 attempts'', exitCode = 1\<rparr>, w')
           \<and> spawned w' = 2"
  proof -
    have pre: "(\<forall>i. 1 \<le> i \<and> i \<le> 2 \<longrightarrow>
             (\<exists>r. attempt_outcome node ?e3 ''hi'' ?o world0 i = Resolved r \<and> \<not> success r))
       \<and> attempt_outcome node ?e3 ''hi'' ?o world0 2
           = Resolved \<lparr>success = False, output = ''Command timeout'', exitCode = 124\<rparr>
       \<and> (exitCode \<lparr>success = False, output = ''Command timeout'', exitCode = 124\<rparr> = 124
          \<or> exitCode \<lparr>success = False, output = ''Command timeout'', exitCode = 124\<rparr> = 137)"
      using h3 c by simp
    have "\<exists>w'. runWithRetry node ?e3 ''hi'' ?o world0
             = Some (Resolved \<lparr>success = False,
                       output = ''Max retries reached after ''
                                @ numberToString node (Num (of_int 2)) @ '' attempts'',
                       exitCode = 1\<rparr>, w')
           \<and> spawned w' = spawned world0 + nat 2"
      using runWithRetry_outcome [OF N, where rt = node and env = ?e3
              and p = "''hi''" and w = world0
              and l = "\<lparr>success = False, output = ''Command timeout'', exitCode = 124\<rparr>",
              THEN conjunct2, THEN conjunct2]
            pre
      by blast
    then show ?thesis using two by (auto simp: world0_def)
  qed
  from N(1) a1 a2 A B C show ?thesis by blast
qed

text \<open>
  C10. With \<open>maxRetries <= 0\<close> (any number, whole or not, and also \<open>-Infinity\<close>) the loop
  body never runs: \<open>runWithRetry\<close> returns the outcome \<open>Max retries reached after N
  attempts\<close> with exit code 1, where \<open>N\<close> is the given \<open>maxRetries\<close> as the runtime prints
  it, and leaves the world as it was, with no process spawned and no wait.
\<close>

theorem runWithRetry_no_attempts:
  "number_le (maxRetries options) (Num 0) \<Longrightarrow>
   runWithRetry rt env p options w =
     Some (Resolved \<lparr>success = False,
             output = ''Max retries reached after '' @ numberToString rt (maxRetries options)
                      @ '' attempts'',
             exitCode = 1\<rparr>, w)"
  using number_le_zero_no_attempt [of "maxRetries options"]
  by (simp add: runWithRetry_def loop_exhausted)

theorem runWithRetry_no_attempts_witness:
  "number_le (maxRetries ((parseToolArguments (prompt_only ''hi''))\<lparr>maxRetries := Num (- 3)\<rparr>))
     (Num 0)
   \<and> runWithRetry node (\<lambda>n p a t. Events [StdoutData ''ok'', Close (Some 0)]) ''hi''
         ((parseToolArguments (prompt_only ''hi''))\<lparr>maxRetries := Num (- 3)\<rparr>) world0
       = Some (Resolved \<lparr>success = False, output = ''Max retries reached after -3 attempts'',
                 exitCode = 1\<rparr>, world0)
   \<and> number_le (maxRetries ((parseToolArguments (prompt_only ''hi''))\<lparr>maxRetries := Num (- 1 / 2)\<rparr>))
       (Num 0)
   \<and> runWithRetry node (\<lambda>n p a t. Events [StdoutData ''ok'', Close (Some 0)]) ''hi''
         ((parseToolArguments (prompt_only ''hi''))\<lparr>maxRetries := Num (- 1 / 2)\<rparr>) world0
       = Some (Resolved \<lparr>success = False, output = ''Max retries reached after -0.5 attempts'',
                 exitCode = 1\<rparr>, world0)
   \<and> number_le
       (maxRetries ((parseToolArguments (prompt_only ''hi''))\<lparr>maxRetries := Num (- (10 ^ 21))\<rparr>))
       (Num 0)
   \<and> runWithRetry node (\<lambda>n p a t. Events [StdoutData ''ok'', Close (Some 0)]) ''hi''
         ((parseToolArguments (prompt_only ''hi''))\<lparr>maxRetries := Num (- (10 ^ 21))\<rparr>) world0
       = Some (Resolved \<lparr>success = False,
                 output = ''Max retries reached after -1e+21 attempts'', exitCode = 1\<rparr>, world0)
   \<and> number_le (maxRetries ((parseToolArguments (prompt_only ''hi''))\<lparr>maxRetries := NegInfinity\<rparr>))
       (Num 0)
   \<and> runWithRetry node (\<lambda>n p a t. Events [StdoutData ''ok'', Close (Some 0)]) ''hi''
         ((parseToolArguments (prompt_only ''hi''))\<lparr>maxRetries := NegInfinity\<rparr>) world0
       = Some (Resolved \<lparr>success = False,
                 output = ''Max retries reached after -Infinity attempts'', exitCode = 1\<rparr>,
               world0)"
proof -
  let ?e = "\<lambda>(n::nat) (p::string) (a::js_value list) (t::number).
              Events [StdoutData ''ok'', Close (Some 0)]"
  let ?o = "\<lambda>m. (parseToolArguments (prompt_only ''hi''))\<lparr>maxRetries := m\<rparr>"
  have s: "numberToString node (Num (- 3)) = ''-3''"
          "numberToString node (Num (- 1 / 2)) = ''-0.5''"
          "numberToString node (Num (- (10 ^ 21))) = ''-1e+21''"
          "numberToString node NegInfinity = ''-Infinity''"
    by code_simp+
  have h: "number_le (maxRetries (?o (Num (- 3)))) (Num 0)"
          "number_le (maxRetries (?o (Num (- 1 / 2)))) (Num 0)"
          "number_le (maxRetries (?o (Num (- (10 ^ 21))))) (Num 0)"
          "number_le (maxRetries (?o NegInfinity)) (Num 0)"
    by simp_all
  show ?thesis
    using runWithRetry_no_attempts [OF h(1), of node ?e "''hi''" world0]
          runWithRetry_no_attempts [OF h(2), of node ?e "''hi''" world0]
          runWithRetry_no_attempts [OF h(3), of node ?e "''hi''" world0]
          runWithRetry_no_attempts [OF h(4), of node ?e "''hi''" world0]
          h s
    by simp
qed

section \<open>The subprocess runner\<close>

lemma resolved_kept:
  "resolved st = Some r \<Longrightarrow> resolved (foldl (handle_event rt) st evs) = Some r"
proof (induction evs arbitrary: st)
  case Nil
  then show ?case by simp
next
  case (Cons e evs)
  have "resolved (handle_event rt st e) = Some r"
    using Cons.prems
    by (cases e) (simp_all add: on_close_def on_error_def resolve_def Let_def)
  then show ?case using Cons.IH by simp
qed

lemma died_after:
  "died (foldl (handle_event rt) st evs) = (died st \<or> list_ex is_stdin_error evs)"
proof (induction evs arbitrary: st)
  case Nil
  then show ?case by simp
next
  case (Cons e evs)
  show ?case
    by (cases e) (simp_all add: Cons.IH on_close_def on_error_def resolve_def Let_def)
qed

lemma chunks_after:
  "concat (chunks (foldl (handle_event rt) st evs)) = concat (chunks st) @ stdout_of evs"
proof (induction evs arbitrary: st)
  case Nil
  then show ?case by simp
next
  case (Cons e evs)
  show ?case
    by (cases e) (simp_all add: Cons.IH on_close_def on_error_def resolve_def Let_def)
qed

lemma errorChunks_after:
  "concat (errorChunks (foldl (handle_event rt) st evs))
     = concat (errorChunks st) @ stderr_of evs"
proof (induction evs arbitrary: st)
  case Nil
  then show ?case by simp
next
  case (Cons e evs)
  show ?case
    by (cases e) (simp_all add: Cons.IH on_close_def on_error_def resolve_def Let_def)
qed

lemma data_only_after:
  "list_all is_data evs \<Longrightarrow>
   killed (foldl (handle_event rt) st evs) = killed st
   \<and> timerArmed (foldl (handle_event rt) st evs) = timerArmed st
   \<and> resolved (foldl (handle_event rt) st evs) = resolved st"
proof (induction evs arbitrary: st)
  case Nil
  then show ?case by simp
next
  case (Cons e evs)
  then show ?case by (cases e) simp_all
qed

lemma not_terminal_after:
  "\<not> list_ex is_terminal evs \<Longrightarrow>
   resolved (foldl (handle_event rt) st evs) = resolved st
   \<and> (killed st \<longrightarrow> killed (foldl (handle_event rt) st evs))"
proof (induction evs arbitrary: st)
  case Nil
  then show ?case by simp
next
  case (Cons e evs)
  then show ?case by (cases e) simp_all
qed

text \<open>
  How one run of the subprocess ends when no error is raised on the standard input of the
  child. When the timer fires before the process has closed, the outcome at the \<open>close\<close>
  event is \<open>Command timeout\<close> with exit code 124. When the process closes with code 0
  before the timer fires, the outcome is success with the collected standard output,
  decoded. When it closes with a code \<open>n \<noteq> 0\<close>, the outcome is a failure with exit code
  \<open>n\<close> whose text is the decoded standard error if that is not empty, else the decoded
  standard output if that is not empty, else \<open>Exit code: n\<close>. When the \<open>error\<close> event of
  the child comes first, the outcome is \<open>Spawn error:\<close> followed by the message, with exit
  code 1. In every case the call has spawned one process.
\<close>

lemma process_outcome_cases:
  assumes "\<not> list_ex is_stdin_error evs"
  shows
   "(evs = pre @ [TimerFired] @ mid @ [Close c] @ rest
       \<and> list_all is_data pre \<and> \<not> list_ex is_terminal mid \<longrightarrow>
      process_outcome rt (Events evs)
        = Resolved \<lparr>success = False, output = ''Command timeout'', exitCode = 124\<rparr>)
   \<and> (evs = pre @ [Close (Some 0)] @ rest \<and> list_all is_data pre \<longrightarrow>
      process_outcome rt (Events evs)
        = Resolved \<lparr>success = True, output = utf8ToString rt (stdout_of pre), exitCode = 0\<rparr>)
   \<and> (evs = pre @ [Close (Some n)] @ rest \<and> list_all is_data pre \<and> n \<noteq> 0 \<longrightarrow>
      process_outcome rt (Events evs)
        = Resolved \<lparr>success = False,
            output = (if utf8ToString rt (stderr_of pre) \<noteq> []
                      then utf8ToString rt (stderr_of pre)
                      else if utf8ToString rt (stdout_of pre) \<noteq> []
                      then utf8ToString rt (stdout_of pre)
                      else ''Exit code: '' @ numberToString rt (Num (of_int n))),
            exitCode = n\<rparr>)
   \<and> (evs = pre @ [ProcError msg] @ rest \<and> \<not> list_ex is_terminal pre \<longrightarrow>
      process_outcome rt (Events evs)
        = Resolved \<lparr>success = False, output = ''Spawn error: '' @ msg, exitCode = 1\<rparr>)"
proof (intro conjI impI)
  let ?st = "foldl (handle_event rt) runner_init pre"
  have alive: "\<not> died (foldl (handle_event rt) runner_init evs)"
    using assms by (simp add: died_after runner_init_def)
  have out: "concat (chunks ?st) = stdout_of pre" "concat (errorChunks ?st) = stderr_of pre"
    using chunks_after [of rt runner_init pre] errorChunks_after [of rt runner_init pre]
    by (simp_all add: runner_init_def)
  {
    assume h: "evs = pre @ [TimerFired] @ mid @ [Close c] @ rest
       \<and> list_all is_data pre \<and> \<not> list_ex is_terminal mid"
    let ?s1 = "handle_event rt ?st TimerFired"
    let ?s2 = "foldl (handle_event rt) ?s1 mid"
    have "killed ?st = False \<and> timerArmed ?st = True \<and> resolved ?st = None"
      using h data_only_after [of pre rt runner_init] by (simp add: runner_init_def)
    then have "killed ?s1 \<and> resolved ?s1 = None" by simp
    then have s2: "killed ?s2 \<and> resolved ?s2 = None"
      using h not_terminal_after [of mid rt ?s1] by simp
    then have "resolved (handle_event rt ?s2 (Close c))
                 = Some \<lparr>success = False, output = ''Command timeout'', exitCode = 124\<rparr>"
      by (simp add: on_close_def resolve_def Let_def)
    then have "resolved (foldl (handle_event rt) runner_init
                           (pre @ [TimerFired] @ mid @ [Close c] @ rest))
                 = Some \<lparr>success = False, output = ''Command timeout'', exitCode = 124\<rparr>"
      by (simp add: resolved_kept)
    then show "process_outcome rt (Events evs)
        = Resolved \<lparr>success = False, output = ''Command timeout'', exitCode = 124\<rparr>"
      using alive h by (simp add: process_outcome_def Let_def)
  }
  {
    assume h: "evs = pre @ [Close (Some 0)] @ rest \<and> list_all is_data pre"
    have st: "killed ?st = False \<and> resolved ?st = None"
      using h data_only_after [of pre rt runner_init] by (simp add: runner_init_def)
    then have "resolved (handle_event rt ?st (Close (Some 0)))
                 = Some \<lparr>success = True, output = utf8ToString rt (stdout_of pre), exitCode = 0\<rparr>"
      using out by (simp add: on_close_def resolve_def Let_def)
    then have "resolved (foldl (handle_event rt) runner_init (pre @ [Close (Some 0)] @ rest))
                 = Some \<lparr>success = True, output = utf8ToString rt (stdout_of pre), exitCode = 0\<rparr>"
      by (simp add: resolved_kept)
    then show "process_outcome rt (Events evs)
        = Resolved \<lparr>success = True, output = utf8ToString rt (stdout_of pre), exitCode = 0\<rparr>"
      using alive h by (simp add: process_outcome_def Let_def)
  }
  {
    assume h: "evs = pre @ [Close (Some n)] @ rest \<and> list_all is_data pre \<and> n \<noteq> 0"
    let ?r = "\<lparr>success = False,
            output = (if utf8ToString rt (stderr_of pre) \<noteq> []
                      then utf8ToString rt (stderr_of pre)
                      else if utf8ToString rt (stdout_of pre) \<noteq> []
                      then utf8ToString rt (stdout_of pre)
                      else ''Exit code: '' @ numberToString rt (Num (of_int n))),
            exitCode = n\<rparr>"
    have st: "killed ?st = False \<and> resolved ?st = None"
      using h data_only_after [of pre rt runner_init] by (simp add: runner_init_def)
    then have "resolved (handle_event rt ?st (Close (Some n))) = Some ?r"
      using out h by (simp add: on_close_def resolve_def Let_def)
    then have "resolved (foldl (handle_event rt) runner_init (pre @ [Close (Some n)] @ rest))
                 = Some ?r"
      by (simp add: resolved_kept)
    then show "process_outcome rt (Events evs) = Resolved ?r"
      using alive h by (simp add: process_outcome_def Let_def)
  }
  {
    assume h: "evs = pre @ [ProcError msg] @ rest \<and> \<not> list_ex is_terminal pre"
    let ?r = "\<lparr>success = False, output = ''Spawn error: '' @ msg, exitCode = 1\<rparr>"
    have st: "resolved ?st = None"
      using h not_terminal_after [of pre rt runner_init] by (simp add: runner_init_def)
    then have "resolved (handle_event rt ?st (ProcError msg)) = Some ?r"
      by (simp add: on_error_def resolve_def)
    then have "resolved (foldl (handle_event rt) runner_init (pre @ [ProcError msg] @ rest))
                 = Some ?r"
      by (simp add: resolved_kept)
    then show "process_outcome rt (Events evs) = Resolved ?r"
      using alive h by (simp add: process_outcome_def Let_def)
  }
qed

lemma executeClaudeCli_outcome:
  assumes "env (spawned w) p a t = Events evs" and "\<not> list_ex is_stdin_error evs"
  shows
   "executeClaudeCli rt env p a t w =
      (process_outcome rt (Events evs),
       w\<lparr>spawned := Suc (spawned w), trace := trace w @ [Spawn p a t]\<rparr>)
    \<and> (evs = pre @ [TimerFired] @ mid @ [Close c] @ rest
         \<and> list_all is_data pre \<and> \<not> list_ex is_terminal mid \<longrightarrow>
        fst (executeClaudeCli rt env p a t w)
          = Resolved \<lparr>success = False, output = ''Command timeout'', exitCode = 124\<rparr>)
    \<and> (evs = pre @ [Close (Some 0)] @ rest \<and> list_all is_data pre \<longrightarrow>
        fst (executeClaudeCli rt env p a t w)
          = Resolved \<lparr>success = True, output = utf8ToString rt (stdout_of pre), exitCode = 0\<rparr>)
    \<and> (evs = pre @ [Close (Some n)] @ rest \<and> list_all is_data pre \<and> n \<noteq> 0 \<longrightarrow>
        fst (executeClaudeCli rt env p a t w)
          = Resolved \<lparr>success = False,
              output = (if utf8ToString rt (stderr_of pre) \<noteq> []
                        then utf8ToString rt (stderr_of pre)
                        else if utf8ToString rt (stdout_of pre) \<noteq> []
                        then utf8ToString rt (stdout_of pre)
                        else ''Exit code: '' @ numberToString rt (Num (of_int n))),
              exitCode = n\<rparr>)
    \<and> (evs = pre @ [ProcError msg] @ rest \<and> \<not> list_ex is_terminal pre \<longrightarrow>
        fst (executeClaudeCli rt env p a t w)
          = Resolved \<lparr>success = False, output = ''Spawn error: '' @ msg, exitCode = 1\<rparr>)"
  using process_outcome_cases [OF assms(2), of pre mid c rest rt n msg] assms(1)
  by (simp add: executeClaudeCli_def)

text \<open>
  The two ways of ending that give no outcome. When \<open>spawn\<close> throws, the promise is
  rejected with the error: there is no \<open>Spawn error\<close> outcome (in \<open>handleToolCall\<close> the
  rejection is caught and answered with \<open>Internal error\<close>). When an error is raised on the
  standard input of the child, the server ends, whatever the child does.
\<close>

lemma executeClaudeCli_spawn_throws:
  "env (spawned w) p a t = SpawnThrows msg \<Longrightarrow>
   fst (executeClaudeCli rt env p a t w) = Rejected msg"
  by (simp add: executeClaudeCli_def process_outcome_def)

lemma executeClaudeCli_stdin_error:
  "env (spawned w) p a t = Events evs \<Longrightarrow> list_ex is_stdin_error evs \<Longrightarrow>
   fst (executeClaudeCli rt env p a t w) = Died"
  by (simp add: executeClaudeCli_def process_outcome_def died_after Let_def)


text \<open>Instances of the four outcomes, and of a start that fails by a throw.\<close>

lemma executeClaudeCli_outcome_examples:
  "fst (executeClaudeCli node
          (\<lambda>n p a t. Events [StdoutData ''par'', TimerFired, StdoutData ''tial'', Close None])
          ''hi'' [] (Num 1000) world0)
     = Resolved \<lparr>success = False, output = ''Command timeout'', exitCode = 124\<rparr>
   \<and> fst (executeClaudeCli node
          (\<lambda>n p a t. Events [StdoutData ''he'', StderrData ''warn'', StdoutData ''llo'',
                              Close (Some 0)])
          ''hi'' [] (Num 1000) world0)
     = Resolved \<lparr>success = True, output = ''hello'', exitCode = 0\<rparr>
   \<and> fst (executeClaudeCli node
          (\<lambda>n p a t. Events [StdoutData ''he'', StderrData ''warn'', StdoutData ''llo'',
                              Close (Some 3)])
          ''hi'' [] (Num 1000) world0)
     = Resolved \<lparr>success = False, output = ''warn'', exitCode = 3\<rparr>
   \<and> fst (executeClaudeCli node (\<lambda>n p a t. Events [StdoutData ''out'', Close (Some 3)])
          ''hi'' [] (Num 1000) world0)
     = Resolved \<lparr>success = False, output = ''out'', exitCode = 3\<rparr>
   \<and> fst (executeClaudeCli node (\<lambda>n p a t. Events [Close (Some 3)])
          ''hi'' [] (Num 1000) world0)
     = Resolved \<lparr>success = False, output = ''Exit code: 3'', exitCode = 3\<rparr>
   \<and> fst (executeClaudeCli node
          (\<lambda>n p a t. Events [ProcError ''spawn claude ENOENT'', Close (Some (- 2))])
          ''hi'' [] (Num 1000) world0)
     = Resolved \<lparr>success = False, output = ''Spawn error: spawn claude ENOENT'', exitCode = 1\<rparr>
   \<and> fst (executeClaudeCli node (\<lambda>n p a t. SpawnThrows ''spawn E2BIG'')
          ''hi'' [] (Num 1000) world0)
     = Rejected ''spawn E2BIG''"
  by code_simp


section \<open>Extraction of the JSON content\<close>

lemma indexOf_absent: "c \<notin> set s \<Longrightarrow> indexOf s c = - 1"
  by (induction s) (auto simp: Let_def)

lemma indexOf_nonneg_or_absent: "indexOf s c = - 1 \<or> 0 \<le> indexOf s c"
  by (induction s) (auto simp: Let_def)

lemma indexOf_first: "c \<notin> set pre \<Longrightarrow> indexOf (pre @ c # rest) c = int (length pre)"
  by (induction pre) (auto simp: Let_def)

lemma lastIndexOf_absent: "c \<notin> set s \<Longrightarrow> lastIndexOf s c = - 1"
  by (induction s) (auto simp: Let_def)

lemma lastIndexOf_last:
  "c \<notin> set post \<Longrightarrow> lastIndexOf (pre @ c # post) c = int (length pre)"
  by (induction pre) (auto simp: Let_def lastIndexOf_absent)

lemma indexOf_split:
  assumes "indexOf s c \<noteq> - 1"
  shows "\<exists>pre rest. s = pre @ c # rest \<and> c \<notin> set pre \<and> indexOf s c = int (length pre)"
proof -
  have "c \<in> set s" using assms indexOf_absent by metis
  then obtain pre rest where "s = pre @ c # rest" "c \<notin> set pre"
    by (meson split_list_first)
  then show ?thesis using indexOf_first by blast
qed

lemma lastIndexOf_split:
  assumes "lastIndexOf s c \<noteq> - 1"
  shows "\<exists>pre post. s = pre @ c # post \<and> c \<notin> set post \<and> lastIndexOf s c = int (length pre)"
proof -
  have "c \<in> set s" using assms lastIndexOf_absent by metis
  then obtain pre post where "s = pre @ c # post" "c \<notin> set post"
    by (meson split_list_last)
  then show ?thesis using lastIndexOf_last by blast
qed

lemma clamp_index_nat: "clamp_index s (int n) = min n (length s)"
  by (simp add: clamp_index_def)

lemma substring_middle:
  "substring (pre @ c @ post) (int (length pre)) (int (length pre + length c)) = c"
proof -
  have a: "clamp_index (pre @ c @ post) (int (length pre)) = length pre"
    by (simp add: clamp_index_nat)
  have b: "clamp_index (pre @ c @ post) (int (length pre + length c)) = length pre + length c"
    unfolding clamp_index_nat by simp
  show ?thesis
    unfolding substring_def Let_def a b by simp
qed

lemma span_values:
  assumes "txt = pre @ (ob # mid @ [cb]) @ post" "ob \<notin> set pre" "cb \<notin> set post"
  shows "indexOf txt ob = int (length pre)"
    and "lastIndexOf txt cb = int (length pre + length mid + 1)"
    and "substring txt (indexOf txt ob) (lastIndexOf txt cb + 1) = ob # mid @ [cb]"
proof -
  show 1: "indexOf txt ob = int (length pre)"
    using assms(1,2) indexOf_first [of ob pre "mid @ [cb] @ post"] by simp
  have "txt = (pre @ ob # mid) @ cb # post" using assms(1) by simp
  then show 2: "lastIndexOf txt cb = int (length pre + length mid + 1)"
    using assms(3) lastIndexOf_last [of cb post "pre @ ob # mid"] by simp
  have "substring (pre @ (ob # mid @ [cb]) @ post) (int (length pre))
          (int (length pre + length (ob # mid @ [cb]))) = ob # mid @ [cb]"
    by (rule substring_middle)
  then show "substring txt (indexOf txt ob) (lastIndexOf txt cb + 1) = ob # mid @ [cb]"
    using 1 2 assms(1) by (simp add: add.commute add.left_commute)
qed

lemma span_exists:
  assumes "indexOf txt ob \<noteq> - 1" "lastIndexOf txt cb \<noteq> - 1" "indexOf txt ob < lastIndexOf txt cb"
  shows "\<exists>pre mid post. txt = pre @ (ob # mid @ [cb]) @ post \<and> ob \<notin> set pre \<and> cb \<notin> set post"
proof -
  obtain pre rest where a: "txt = pre @ ob # rest" "ob \<notin> set pre" "indexOf txt ob = int (length pre)"
    using indexOf_split [OF assms(1)] by blast
  obtain pre2 post where b: "txt = pre2 @ cb # post" "cb \<notin> set post"
      "lastIndexOf txt cb = int (length pre2)"
    using lastIndexOf_split [OF assms(2)] by blast
  have len: "length pre < length pre2" using assms(3) a(3) b(3) by simp
  have "take (length pre2) txt = pre2" using b(1) by simp
  moreover have "take (length pre2) txt = pre @ take (length pre2 - length pre) (ob # rest)"
    using a(1) len by simp
  moreover have "take (length pre2 - length pre) (ob # rest)
                   = ob # take (length pre2 - length pre - 1) rest"
    using len by (cases "length pre2 - length pre") simp_all
  ultimately have "pre2 = pre @ ob # take (length pre2 - length pre - 1) rest"
    by simp
  then have "txt = pre @ (ob # take (length pre2 - length pre - 1) rest @ [cb]) @ post"
    using b(1) by simp
  then show ?thesis using a(2) b(2) by blast
qed


lemma extractJsonContent_at_span:
  assumes "txt = pre @ (CHR ''{'' # mid @ [CHR ''}'']) @ post"
    "CHR ''{'' \<notin> set pre" "CHR ''}'' \<notin> set post"
  shows "extractJsonContent parse txt =
           (case parse (CHR ''{'' # mid @ [CHR ''}'']) of
              None \<Rightarrow> None
            | Some v \<Rightarrow> Some (CHR ''{'' # mid @ [CHR ''}'']))"
proof -
  note v = span_values [OF assms]
  have "indexOf txt (CHR ''{'') \<noteq> - 1" "lastIndexOf txt (CHR ''}'') \<noteq> - 1"
    "\<not> indexOf txt (CHR ''{'') \<ge> lastIndexOf txt (CHR ''}'')"
    using v(1,2) by simp_all
  then show ?thesis
    using v(3) by (simp add: extractJsonContent_def Let_def)
qed

lemma extractJsonContent_Some_span:
  assumes "extractJsonContent parse txt = Some c"
  shows "\<exists>pre mid post. txt = pre @ c @ post \<and> c = CHR ''{'' # mid @ [CHR ''}'']
           \<and> CHR ''{'' \<notin> set pre \<and> CHR ''}'' \<notin> set post \<and> parse c \<noteq> None"
proof -
  have cond: "indexOf txt (CHR ''{'') \<noteq> - 1" "lastIndexOf txt (CHR ''}'') \<noteq> - 1"
    "indexOf txt (CHR ''{'') < lastIndexOf txt (CHR ''}'')"
    using assms by (auto simp: extractJsonContent_def Let_def split: if_splits)
  obtain pre mid post where d: "txt = pre @ (CHR ''{'' # mid @ [CHR ''}'']) @ post"
    "CHR ''{'' \<notin> set pre" "CHR ''}'' \<notin> set post"
    using span_exists [OF cond] by blast
  have "(case parse (CHR ''{'' # mid @ [CHR ''}'']) of
              None \<Rightarrow> None
            | Some v \<Rightarrow> Some (CHR ''{'' # mid @ [CHR ''}''])) = Some c"
    using extractJsonContent_at_span [OF d, of parse] assms by simp
  then have "c = CHR ''{'' # mid @ [CHR ''}'']" "parse c \<noteq> None"
    by (auto split: option.splits)
  then show ?thesis using d by blast
qed

lemma extractJsonContent_example:
  "extractJsonContent JSON_parse ''prefix {\"a\":1} suffix'' = Some ''{\"a\":1}''"
  by code_simp

lemma extractJsonContent_unbalanced:
  "extractJsonContent JSON_parse ''{\"a\":{\"b\":1}'' = None"
  by code_simp

text \<open>
  C5. \<open>extractJsonContent\<close> returns \<open>c\<close> exactly when the text is \<open>pre @ c @ post\<close> where \<open>c\<close>
  starts at the first open brace of the text (\<open>pre\<close> has none), ends at its last close
  brace (\<open>post\<close> has none) and parses as JSON; it returns null exactly when there is no
  such \<open>c\<close>. In particular: on \<open>prefix {"a":1} suffix\<close> it returns \<open>{"a":1}\<close>; on a text
  without an open brace, without a close brace, or with no open brace before its last
  close brace it returns null; and on the unbalanced \<open>{"a":{"b":1}\<close>, whose candidate does
  not parse, it returns null.
\<close>

theorem extractJsonContent_span:
  "(extractJsonContent parse txt = Some c \<longleftrightarrow>
      (\<exists>pre mid post. txt = pre @ c @ post \<and> c = CHR ''{'' # mid @ [CHR ''}'']
         \<and> CHR ''{'' \<notin> set pre \<and> CHR ''}'' \<notin> set post \<and> parse c \<noteq> None))
   \<and> (extractJsonContent parse txt = None \<longleftrightarrow>
      \<not> (\<exists>pre mid post. txt = pre @ (CHR ''{'' # mid @ [CHR ''}'']) @ post
         \<and> CHR ''{'' \<notin> set pre \<and> CHR ''}'' \<notin> set post
         \<and> parse (CHR ''{'' # mid @ [CHR ''}'']) \<noteq> None))
   \<and> extractJsonContent JSON_parse ''prefix {\"a\":1} suffix'' = Some ''{\"a\":1}''
   \<and> (CHR ''{'' \<notin> set txt \<longrightarrow> extractJsonContent parse txt = None)
   \<and> (CHR ''}'' \<notin> set txt \<longrightarrow> extractJsonContent parse txt = None)
   \<and> (txt = a @ CHR ''}'' # b \<and> CHR ''{'' \<notin> set a \<and> CHR ''}'' \<notin> set b
        \<longrightarrow> extractJsonContent parse txt = None)
   \<and> extractJsonContent JSON_parse ''{\"a\":{\"b\":1}'' = None"
proof -
  have 1: "extractJsonContent parse txt = Some c \<longleftrightarrow>
      (\<exists>pre mid post. txt = pre @ c @ post \<and> c = CHR ''{'' # mid @ [CHR ''}'']
         \<and> CHR ''{'' \<notin> set pre \<and> CHR ''}'' \<notin> set post \<and> parse c \<noteq> None)"
  proof
    assume "extractJsonContent parse txt = Some c"
    then show "\<exists>pre mid post. txt = pre @ c @ post \<and> c = CHR ''{'' # mid @ [CHR ''}'']
         \<and> CHR ''{'' \<notin> set pre \<and> CHR ''}'' \<notin> set post \<and> parse c \<noteq> None"
      by (rule extractJsonContent_Some_span)
  next
    assume "\<exists>pre mid post. txt = pre @ c @ post \<and> c = CHR ''{'' # mid @ [CHR ''}'']
         \<and> CHR ''{'' \<notin> set pre \<and> CHR ''}'' \<notin> set post \<and> parse c \<noteq> None"
    then obtain pre mid post where d: "txt = pre @ (CHR ''{'' # mid @ [CHR ''}'']) @ post"
      "CHR ''{'' \<notin> set pre" "CHR ''}'' \<notin> set post"
      and c: "c = CHR ''{'' # mid @ [CHR ''}'']" "parse c \<noteq> None"
      by blast
    show "extractJsonContent parse txt = Some c"
      using extractJsonContent_at_span [OF d, of parse] c by auto
  qed
  have 2: "extractJsonContent parse txt = None \<longleftrightarrow>
      \<not> (\<exists>pre mid post. txt = pre @ (CHR ''{'' # mid @ [CHR ''}'']) @ post
         \<and> CHR ''{'' \<notin> set pre \<and> CHR ''}'' \<notin> set post
         \<and> parse (CHR ''{'' # mid @ [CHR ''}'']) \<noteq> None)"
  proof
    assume n: "extractJsonContent parse txt = None"
    show "\<not> (\<exists>pre mid post. txt = pre @ (CHR ''{'' # mid @ [CHR ''}'']) @ post
         \<and> CHR ''{'' \<notin> set pre \<and> CHR ''}'' \<notin> set post
         \<and> parse (CHR ''{'' # mid @ [CHR ''}'']) \<noteq> None)"
    proof
      assume "\<exists>pre mid post. txt = pre @ (CHR ''{'' # mid @ [CHR ''}'']) @ post
         \<and> CHR ''{'' \<notin> set pre \<and> CHR ''}'' \<notin> set post
         \<and> parse (CHR ''{'' # mid @ [CHR ''}'']) \<noteq> None"
      then obtain pre mid post where d: "txt = pre @ (CHR ''{'' # mid @ [CHR ''}'']) @ post"
        "CHR ''{'' \<notin> set pre" "CHR ''}'' \<notin> set post"
        and p: "parse (CHR ''{'' # mid @ [CHR ''}'']) \<noteq> None"
        by blast
      show False
        using extractJsonContent_at_span [OF d, of parse] p n by auto
    qed
  next
    assume h: "\<not> (\<exists>pre mid post. txt = pre @ (CHR ''{'' # mid @ [CHR ''}'']) @ post
         \<and> CHR ''{'' \<notin> set pre \<and> CHR ''}'' \<notin> set post
         \<and> parse (CHR ''{'' # mid @ [CHR ''}'']) \<noteq> None)"
    show "extractJsonContent parse txt = None"
    proof (cases "extractJsonContent parse txt")
      case None
      then show ?thesis .
    next
      case (Some c')
      then show ?thesis
        using extractJsonContent_Some_span [OF Some] h by (metis append.assoc)
    qed
  qed
  have 4: "CHR ''{'' \<notin> set txt \<longrightarrow> extractJsonContent parse txt = None"
    by (simp add: extractJsonContent_def indexOf_absent)
  have 5: "CHR ''}'' \<notin> set txt \<longrightarrow> extractJsonContent parse txt = None"
    by (simp add: extractJsonContent_def lastIndexOf_absent)
  have 6: "txt = a @ CHR ''}'' # b \<and> CHR ''{'' \<notin> set a \<and> CHR ''}'' \<notin> set b
        \<longrightarrow> extractJsonContent parse txt = None"
  proof
    assume h: "txt = a @ CHR ''}'' # b \<and> CHR ''{'' \<notin> set a \<and> CHR ''}'' \<notin> set b"
    then have l: "lastIndexOf txt (CHR ''}'') = int (length a)"
      using lastIndexOf_last by blast
    have "indexOf txt (CHR ''{'') = - 1 \<or> int (length a) \<le> indexOf txt (CHR ''{'')"
    proof (cases "indexOf txt (CHR ''{'') = - 1")
      case True
      then show ?thesis by simp
    next
      case False
      then obtain pre rest where p: "txt = pre @ CHR ''{'' # rest"
        "indexOf txt (CHR ''{'') = int (length pre)"
        using indexOf_split by blast
      have "\<not> length pre < length a"
      proof
        assume "length pre < length a"
        then have "txt ! length pre = a ! length pre"
          using h by (simp add: nth_append)
        moreover have "txt ! length pre = CHR ''{''" using p(1) by simp
        ultimately show False using h \<open>length pre < length a\<close> by (metis nth_mem)
      qed
      then show ?thesis using p(2) by simp
    qed
    then show "extractJsonContent parse txt = None"
      using l by (auto simp: extractJsonContent_def Let_def)
  qed
  show ?thesis
    using 1 2 4 5 6 extractJsonContent_example extractJsonContent_unbalanced by blast
qed

theorem extractJsonContent_span_witness:
  "CHR ''{'' \<notin> set ''no braces'' \<and> extractJsonContent JSON_parse ''no braces'' = None
   \<and> CHR ''}'' \<notin> set ''{ open'' \<and> extractJsonContent JSON_parse ''{ open'' = None
   \<and> ''x} {y'' = ''x'' @ CHR ''}'' # '' {y'' \<and> CHR ''{'' \<notin> set ''x'' \<and> CHR ''}'' \<notin> set '' {y''
   \<and> extractJsonContent JSON_parse ''x} {y'' = None"
  using extractJsonContent_span [of JSON_parse "''no braces''"]
    extractJsonContent_span [of JSON_parse "''{ open''"]
    extractJsonContent_span [of JSON_parse "''x} {y''" _ "''x''" "'' {y''"]
  by simp

section \<open>Extraction of the result field\<close>

lemma extractResultText_cases:
  "extractResultText parse s =
     (case parse s of
        Some (JObject members) \<Rightarrow>
          (case map_of (rev members) ''result'' of
             Some (JString r) \<Rightarrow> if r \<noteq> [] then r else s
           | _ \<Rightarrow> s)
      | _ \<Rightarrow> s)"
  by (simp add: extractResultText_def split: option.splits json.splits)

lemma JSON_parse_hello:
  "JSON_parse ''{\"result\":\"hello\"}'' = Some (JObject [(''result'', JString ''hello'')])"
  by code_simp

lemma JSON_parse_not_json: "JSON_parse ''not json'' = None"
  by code_simp

lemma JSON_parse_no_result:
  "JSON_parse ''{\"answer\":\"hello\"}'' = Some (JObject [(''answer'', JString ''hello'')])"
  by code_simp

text \<open>
  C6, as amended. When the text parses as a JSON object whose \<open>result\<close> member is a
  non-empty string, \<open>extractResultText\<close> returns that string; in every other case (the
  text does not parse, the value is not an object, it has no \<open>result\<close> member, or the
  member is not a string or is the empty string) it returns the text unchanged. Every
  exception of the source is a branch of the definition, which falls through to the text.
\<close>

theorem extractResultText_nonempty_result:
  "(parse s = Some (JObject members) \<and> map_of (rev members) ''result'' = Some (JString r)
      \<and> r \<noteq> [] \<longrightarrow> extractResultText parse s = r)
   \<and> (\<not> (\<exists>ms t. parse s = Some (JObject ms) \<and> map_of (rev ms) ''result'' = Some (JString t)
            \<and> t \<noteq> [])
      \<longrightarrow> extractResultText parse s = s)"
proof (intro conjI impI)
  assume "parse s = Some (JObject members) \<and> map_of (rev members) ''result'' = Some (JString r)
      \<and> r \<noteq> []"
  then show "extractResultText parse s = r"
    by (simp add: extractResultText_cases)
next
  assume "\<not> (\<exists>ms t. parse s = Some (JObject ms) \<and> map_of (rev ms) ''result'' = Some (JString t)
            \<and> t \<noteq> [])"
  then show "extractResultText parse s = s"
    by (auto simp: extractResultText_cases split: option.splits json.splits)
qed

theorem extractResultText_nonempty_result_witness:
  "JSON_parse ''{\"result\":\"hello\"}'' = Some (JObject [(''result'', JString ''hello'')])
   \<and> extractResultText JSON_parse ''{\"result\":\"hello\"}'' = ''hello''
   \<and> JSON_parse ''not json'' = None
   \<and> extractResultText JSON_parse ''not json'' = ''not json''
   \<and> JSON_parse ''{\"answer\":\"hello\"}'' = Some (JObject [(''answer'', JString ''hello'')])
   \<and> extractResultText JSON_parse ''{\"answer\":\"hello\"}'' = ''{\"answer\":\"hello\"}''"
  using
    extractResultText_nonempty_result [of JSON_parse "''{\"result\":\"hello\"}''"
      "[(''result'', JString ''hello'')]" "''hello''"]
    extractResultText_nonempty_result [of JSON_parse "''not json''"]
    extractResultText_nonempty_result [of JSON_parse "''{\"answer\":\"hello\"}''"]
  by (simp add: JSON_parse_hello JSON_parse_not_json JSON_parse_no_result)

text \<open>
  A \<open>result\<close> that is the empty string is a string-typed \<open>result\<close> field, yet the text is
  returned, not the field: the condition \<open>parsed.result && ...\<close> is false for it.
\<close>

theorem extractResultText_empty_result_counterexample:
  "JSON_parse ''{\"result\":\"\"}'' = Some (JObject [(''result'', JString '''')])
   \<and> extractResultText JSON_parse ''{\"result\":\"\"}'' = ''{\"result\":\"\"}''
   \<and> extractResultText JSON_parse ''{\"result\":\"\"}'' \<noteq> ''''"
  by code_simp

section \<open>The dispatcher\<close>

lemma VALID_TOOL_NAMES_eq:
  "VALID_TOOL_NAMES =
     {''claude_generate'', ''claude_edit'', ''claude_refactor'', ''claude_generate_json'',
      ''claude_edit_json''}"
  by (simp add: VALID_TOOL_NAMES_def TOOLS_def)

text \<open>
  A call that carries arguments whose prompt is a string, \<open>null\<close> or missing, and that
  names a tool outside the catalogue, ends at once with the single response \<open>-32601\<close>,
  \<open>Unknown tool:\<close> followed by the name: the world after the call differs from the world
  before it by that response alone, so no process is spawned and no retry loop runs.
\<close>

lemma handleToolCall_unknown_tool:
  "toolName \<notin> VALID_TOOL_NAMES \<Longrightarrow>
   prompt args = None \<or> prompt args = Some JNull \<or> (\<exists>s. prompt args = Some (JString s)) \<Longrightarrow>
   handleToolCall rt env i (Some \<lparr>name = toolName, arguments = Some args\<rparr>) w =
     Some (Resolved (),
           w\<lparr>trace := trace w @
                [Respond (ErrorResponse i
                   \<lparr>code = - 32601, message = ''Unknown tool: '' @ toolName, data = None\<rparr>)]\<rparr>)"
  by (auto simp: handleToolCall_def read_params_def sendError_def atomicOutput_def)

text \<open>
  C8 promises that response for every \<open>tools/call\<close> request with an unknown name. The code
  does not send it when the request has no \<open>arguments\<close>: for
  \<open>{"jsonrpc":"2.0","id":7,"method":"tools/call","params":{"name":"claude_delete"}}\<close> the
  log line that reads \<open>args.model\<close> throws before the name is checked, the promise of
  \<open>handleToolCall\<close> is rejected, \<open>processRequest\<close> logs the rejection, and the trace stays
  empty: no response at all is sent.
\<close>

theorem handleToolCall_missing_arguments_no_response:
  "''claude_delete'' \<notin> VALID_TOOL_NAMES
   \<and> handleToolCall node (\<lambda>n p a t. Events [StdoutData ''ok'', Close (Some 0)]) (IdNumber 7)
       (Some \<lparr>name = ''claude_delete'', arguments = None\<rparr>) world0
     = Some (Rejected ''Cannot read properties of undefined (reading 'model')'',
             \<lparr>spawned = 0, trace = []\<rparr>)
   \<and> processRequest_tools_call node (\<lambda>n p a t. Events [StdoutData ''ok'', Close (Some 0)])
       (IdNumber 7) (Some \<lparr>name = ''claude_delete'', arguments = None\<rparr>) world0
     = Some (Resolved (), \<lparr>spawned = 0, trace = []\<rparr>)
   \<and> processRequest_tools_call node (\<lambda>n p a t. Events [StdoutData ''ok'', Close (Some 0)])
       (IdNumber 7) (Some \<lparr>name = ''claude_delete'', arguments = Some (prompt_only ''hi'')\<rparr>)
       world0
     = Some (Resolved (),
             \<lparr>spawned = 0,
              trace = [Respond (ErrorResponse (IdNumber 7)
                         \<lparr>code = - 32601, message = ''Unknown tool: claude_delete'',
                          data = None\<rparr>)]\<rparr>)"
  by (simp add: VALID_TOOL_NAMES_eq processRequest_tools_call_def handleToolCall_def
        read_params_def sendError_def atomicOutput_def world0_def prompt_only_def)

text \<open>
  The same happens when the request has no \<open>params\<close> at all, and when the prompt is
  a number: nothing is sent, whatever the name of the tool.
\<close>

lemma handleToolCall_missing_params:
  "processRequest_tools_call rt env i None w = Some (Resolved (), w)"
  by (simp add: processRequest_tools_call_def handleToolCall_def read_params_def)

lemma handleToolCall_prompt_not_a_string:
  "processRequest_tools_call rt env i
     (Some \<lparr>name = toolName, arguments = Some (args\<lparr>prompt := Some (JNumber lit)\<rparr>)\<rparr>) w
     = Some (Resolved (), w)"
  by (simp add: processRequest_tools_call_def handleToolCall_def read_params_def)

text \<open>
  Two calls of a known tool: one that succeeds, and one without a prompt, which is answered
  with an internal error before any process is spawned.
\<close>

lemma handleToolCall_examples:
  "(case handleToolCall node
           (\<lambda>n p a t. Events [StdoutData ''{\"result\":\"yes\"}'', Close (Some 0)]) (IdNumber 7)
           (Some \<lparr>name = ''claude_generate'', arguments = Some (prompt_only ''hi'')\<rparr>) world0 of
      None \<Rightarrow> False
    | Some r \<Rightarrow>
        fst r = Resolved ()
        \<and> spawned (snd r) = 1
        \<and> last (trace (snd r)) = Respond (ResultResponse (IdNumber 7) (TextContent ''yes'')))
   \<and> handleToolCall node
        (\<lambda>n p a t. Events [StdoutData ''{\"result\":\"yes\"}'', Close (Some 0)]) (IdNumber 7)
        (Some \<lparr>name = ''claude_generate'',
               arguments = Some ((prompt_only ''hi'')\<lparr>prompt := None\<rparr>)\<rparr>) world0
     = Some (Resolved (),
             \<lparr>spawned = 0,
              trace = [Respond (ErrorResponse (IdNumber 7)
                         \<lparr>code = - 32603, message = ''Internal error'',
                          data = Some ''Cannot read properties of undefined (reading 'substring')''\<rparr>)]\<rparr>)"
  by code_simp

section \<open>JSON-validating retry\<close>

text \<open>
  When the inner call of an attempt fails, the loop records the error tagged with the
  attempt number and goes on with the next attempt in a world that the attempt extended
  by its one spawn only: \<open>continue\<close> skips the wait at the end of the loop body.
\<close>

lemma runWithRetry_single_failure:
  assumes "maxRetries options = Num 1"
    and "process_outcome rt
           (env (spawned w) p (buildClaudeArgs rt options)
              (multiply rt (timeout options) (Num 1000))) = Resolved r"
    and "\<not> success r"
  shows "runWithRetry rt env p options w =
           Some (Resolved
              (if exitCode r = 124 \<or> exitCode r = 137
               then \<lparr>success = False,
                      output = ''Max retries reached after '' @ numberToString rt (Num 1)
                               @ '' attempts'',
                      exitCode = 1\<rparr>
               else r),
            w\<lparr>spawned := Suc (spawned w),
              trace := trace w @
                [Spawn p (buildClaudeArgs rt options)
                   (multiply rt (timeout options) (Num 1000))]\<rparr>)"
  using assms
    loop_last_failure [of 1 rt env w p "buildClaudeArgs rt options"
                          "multiply rt (timeout options) (Num 1000)" r]
  by (simp add: runWithRetry_def)

lemma runJsonWithRetry_loop_inner_failure:
  assumes "number_le (Num (of_int attempt)) (maxRetries options)"
    and "process_outcome rt
           (env (spawned w) p
              (buildClaudeArgs rt (options\<lparr>outputFormat := ''json'', maxRetries := Num 1\<rparr>))
              (multiply rt (timeout options) (Num 1000))) = Resolved r"
    and "\<not> success r"
  shows "runJsonWithRetry_loop rt env p options errors attempt w =
           runJsonWithRetry_loop rt env p options
             (errors @
                [''['' @ numberToString rt (Num (of_int attempt)) @ ''] ''
                 @ ''AI execution failed: '' @
                 (if exitCode r = 124 \<or> exitCode r = 137
                  then ''Max retries reached after '' @ numberToString rt (Num 1) @ '' attempts''
                  else output r)])
             (increment attempt)
             (w\<lparr>spawned := Suc (spawned w),
                trace := trace w @
                  [Spawn p
                     (buildClaudeArgs rt (options\<lparr>outputFormat := ''json'', maxRetries := Num 1\<rparr>))
                     (multiply rt (timeout options) (Num 1000))]\<rparr>)"
proof -
  let ?jo = "options\<lparr>outputFormat := ''json'', maxRetries := Num 1\<rparr>"
  have inner: "runWithRetry rt env p ?jo w =
           Some (Resolved
              (if exitCode r = 124 \<or> exitCode r = 137
               then \<lparr>success = False,
                      output = ''Max retries reached after '' @ numberToString rt (Num 1)
                               @ '' attempts'',
                      exitCode = 1\<rparr>
               else r),
            w\<lparr>spawned := Suc (spawned w),
              trace := trace w @
                [Spawn p (buildClaudeArgs rt ?jo) (multiply rt (timeout ?jo) (Num 1000))]\<rparr>)"
    using assms(2,3) by (intro runWithRetry_single_failure) simp_all
  show ?thesis
    using assms(1,3)
    by (subst runJsonWithRetry_loop.simps) (simp add: inner Let_def)
qed

text \<open>
  C2 asks for a wait of 2000 ms between an attempt whose inner call failed and the next
  attempt. The code does not wait there. With \<open>maxRetries = 2\<close> and a process that exits
  with code 2 every time, both attempts are made and both errors are recorded in the final
  report, and the trace holds the two spawns and no sleep.
\<close>

theorem runJsonWithRetry_inner_failure_no_wait:
  "(case runJsonWithRetry node (\<lambda>n p a t. Events [Close (Some 2)]) ''hi''
           ((parseToolArguments (prompt_only ''hi''))\<lparr>maxRetries := Num 2\<rparr>) world0 of
      None \<Rightarrow> False
    | Some r \<Rightarrow>
        fst r =
          Resolved \<lparr>success = False,
            output =
              ''{\"error\":\"Max retries reached\",\"attempts\":2,\"errors\":\"''
              @ ''[1] AI execution failed: Exit code: 2'' @ [CHR 0x5C, CHR ''n'']
              @ ''[2] AI execution failed: Exit code: 2'' @ ''\"}'',
            exitCode = 1\<rparr>
        \<and> spawned (snd r) = 2
        \<and> length (trace (snd r)) = 2
        \<and> filter is_sleep (trace (snd r)) = [])"
  by code_simp

text \<open>
  The other failure path of the same loop does wait: when the process succeeds and its
  output holds no JSON, a sleep of 2000 ms separates the two attempts.
\<close>

lemma runJsonWithRetry_parse_failure_waits:
  "(case runJsonWithRetry node (\<lambda>n p a t. Events [StdoutData ''nope'', Close (Some 0)])
           ''hi'' ((parseToolArguments (prompt_only ''hi''))\<lparr>maxRetries := Num 2\<rparr>) world0 of
      None \<Rightarrow> False
    | Some r \<Rightarrow> filter is_sleep (trace (snd r)) = [Sleep 2000])"
  by code_simp

end
